theory Spec2Isabelle
  imports Complex_Main
begin

section \<open>Numbers, errors and vectors\<close>

text \<open>
  Python floats are read as real numbers: every statement below is about the exact
  arithmetic the code approximates, so "equal within tolerance" becomes equality.
  numpy's NaN is kept apart from the reals: where the source can produce it (a mean
  over no points, the square root of a negative number) the model returns
  \<open>None\<close> of an option type.

  The exceptions of the source are values of \<open>error\<close>. The first six are raised by
  Python, numpy or scipy; the last four are the error kinds the specification names.
\<close>

datatype error =
    KeyError | ValueError | ZeroDivisionError | IndexError | LinAlgError | TypeError
  | DegenerateInputError | InsufficientDataError | ConvergenceError
  | InvalidRepresentationError

text \<open>
  Modelled from the spec: the vector operations that frame.py imports from
  compas.geometry.basic and uses as methods of \<open>Vector\<close> (\<open>cross_vectors\<close>,
  \<open>subtract_vectors\<close>, \<open>Vector.cross\<close>, \<open>Vector.dot\<close>, the length); neither module
  is among the sources. Section 4.1: add, subtract, dot, cross, length and scale on
  three real coordinates.
\<close>

type_synonym vec3 = "real \<times> real \<times> real"

fun dot_vectors :: "vec3 \<Rightarrow> vec3 \<Rightarrow> real" where
  "dot_vectors (a1, a2, a3) (b1, b2, b3) = a1 * b1 + a2 * b2 + a3 * b3"

fun cross_vectors :: "vec3 \<Rightarrow> vec3 \<Rightarrow> vec3" where
  "cross_vectors (a1, a2, a3) (b1, b2, b3) =
     (a2 * b3 - a3 * b2, a3 * b1 - a1 * b3, a1 * b2 - a2 * b1)"

fun subtract_vectors :: "vec3 \<Rightarrow> vec3 \<Rightarrow> vec3" where
  "subtract_vectors (a1, a2, a3) (b1, b2, b3) = (a1 - b1, a2 - b2, a3 - b3)"

fun add_vectors :: "vec3 \<Rightarrow> vec3 \<Rightarrow> vec3" where
  "add_vectors (a1, a2, a3) (b1, b2, b3) = (a1 + b1, a2 + b2, a3 + b3)"

fun scale_vector :: "vec3 \<Rightarrow> real \<Rightarrow> vec3" where
  "scale_vector (a1, a2, a3) s = (a1 * s, a2 * s, a3 * s)"

definition length_vector :: "vec3 \<Rightarrow> real" where
  "length_vector v = sqrt (dot_vectors v v)"

text \<open>
  Modelled from the spec: \<open>Vector.unitize\<close> (the class \<open>Vector\<close> is imported by
  frame.py from compas.geometry.primitives, which is not among the sources). Section 4.1:
  normalize divides a vector by its length and, on a zero-length vector, fails with a
  DegenerateInputError rather than returning a zero vector.
\<close>

definition unitize :: "vec3 \<Rightarrow> error + vec3" where
  "unitize v =
     (if length_vector v = 0 then Inl DegenerateInputError
      else Inr (scale_vector v (1 / length_vector v)))"

section \<open>Frame (frame.py)\<close>

record frame =
  point :: vec3
  xaxis :: vec3
  yaxis :: vec3

text \<open>
  The property setters. Each either raises and leaves the object as it was, or returns
  the object with one field replaced: the x-axis setter stores the unitized vector and
  does not touch the y-axis; the y-axis setter unitizes its argument, takes the unitized
  cross product with the stored x-axis and stores the cross product of that with the
  x-axis.
\<close>

definition point_setter :: "frame \<Rightarrow> vec3 \<Rightarrow> error + frame" where
  "point_setter F p = Inr (F\<lparr>point := p\<rparr>)"

definition xaxis_setter :: "frame \<Rightarrow> vec3 \<Rightarrow> error + frame" where
  "xaxis_setter F v =
     (case unitize v of
        Inl e \<Rightarrow> Inl e
      | Inr x \<Rightarrow> Inr (F\<lparr>xaxis := x\<rparr>))"

definition yaxis_setter :: "frame \<Rightarrow> vec3 \<Rightarrow> error + frame" where
  "yaxis_setter F v =
     (case unitize v of
        Inl e \<Rightarrow> Inl e
      | Inr y \<Rightarrow>
          (case unitize (cross_vectors (xaxis F) y) of
             Inl e \<Rightarrow> Inl e
           | Inr z \<Rightarrow> Inr (F\<lparr>yaxis := cross_vectors z (xaxis F)\<rparr>)))"

text \<open>
  \<open>Frame.__init__\<close>: the three private fields start as \<open>None\<close> and the three setters
  run in the order point, xaxis, yaxis. No setter reads a field before an earlier one
  has written it, so the zero vectors of \<open>blank_frame\<close> stand for \<open>None\<close>.
\<close>

definition blank_frame :: frame where
  "blank_frame = \<lparr>point = (0, 0, 0), xaxis = (0, 0, 0), yaxis = (0, 0, 0)\<rparr>"

definition Frame :: "vec3 \<Rightarrow> vec3 \<Rightarrow> vec3 \<Rightarrow> error + frame" where
  "Frame p x y =
     (case point_setter blank_frame p of
        Inl e \<Rightarrow> Inl e
      | Inr F0 \<Rightarrow>
          (case xaxis_setter F0 x of
             Inl e \<Rightarrow> Inl e
           | Inr F1 \<Rightarrow> yaxis_setter F1 y))"

definition worldXY :: "error + frame" where
  "worldXY = Frame (0, 0, 0) (1, 0, 0) (0, 1, 0)"

definition normal :: "frame \<Rightarrow> vec3" where
  "normal F = cross_vectors (xaxis F) (yaxis F)"

definition zaxis :: "frame \<Rightarrow> vec3" where
  "zaxis F = normal F"

text \<open>
  The invariant of the data model: unit axes, perpendicular, and a right-handed triad
  with the derived z-axis (the triple product of the three axes is 1).
\<close>

definition frame_invariant :: "frame \<Rightarrow> bool" where
  "frame_invariant F \<longleftrightarrow>
     length_vector (xaxis F) = 1 \<and> length_vector (yaxis F) = 1 \<and>
     dot_vectors (xaxis F) (yaxis F) = 0 \<and>
     length_vector (zaxis F) = 1 \<and>
     dot_vectors (zaxis F) (xaxis F) = 0 \<and> dot_vectors (zaxis F) (yaxis F) = 0 \<and>
     dot_vectors (cross_vectors (xaxis F) (yaxis F)) (zaxis F) = 1"

subsection \<open>Indexed assignment\<close>

text \<open>
  \<open>Frame.__setitem__\<close>. The object is mutated in place, so the result is the object
  after the call together with the exception that left it, if any. The branches for the
  keys 0 and 1 end in \<open>return\<close>; the branch for key 2 does not, and control reaches
  the final \<open>raise KeyError\<close>.
\<close>

definition setitem :: "frame \<Rightarrow> int \<Rightarrow> vec3 \<Rightarrow> frame \<times> error option" where
  "setitem F key v =
     (if key = 0 then
        (case point_setter F v of Inl e \<Rightarrow> (F, Some e) | Inr F' \<Rightarrow> (F', None))
      else if key = 1 then
        (case xaxis_setter F v of Inl e \<Rightarrow> (F, Some e) | Inr F' \<Rightarrow> (F', None))
      else if key = 2 then
        (case yaxis_setter F v of Inl e \<Rightarrow> (F, Some e) | Inr F' \<Rightarrow> (F', Some KeyError))
      else (F, Some KeyError))"

subsection \<open>Transformation of a frame\<close>

text \<open>
  The class \<open>Transformation\<close> (compas.geometry.xforms) is not among the sources.
  \<open>Frame.transform\<close> uses four of its operations, which the model takes as a record
  of functions: \<open>Transformation.from_frame\<close>, the product \<open>*\<close>, and the properties
  \<open>translation\<close> and \<open>basis_vectors\<close>, either of which may raise.
\<close>

record 't transformation_ops =
  from_frame :: "frame \<Rightarrow> 't"
  compose :: "'t \<Rightarrow> 't \<Rightarrow> 't"
  translation :: "'t \<Rightarrow> error + vec3"
  basis_vectors :: "'t \<Rightarrow> error + (vec3 \<times> vec3)"

text \<open>
  \<open>Frame.transform\<close> mutates the frame through the three setters, in order; an
  exception of a later setter leaves the earlier assignments in place.
\<close>

definition transform :: "'t transformation_ops \<Rightarrow> frame \<Rightarrow> 't \<Rightarrow> frame \<times> error option" where
  "transform ops F T =
     (let T' = compose ops T (from_frame ops F) in
      case translation ops T' of
        Inl e \<Rightarrow> (F, Some e)
      | Inr p \<Rightarrow>
          (case basis_vectors ops T' of
             Inl e \<Rightarrow> (F, Some e)
           | Inr (x, y) \<Rightarrow>
               (case point_setter F p of
                  Inl e \<Rightarrow> (F, Some e)
                | Inr F0 \<Rightarrow>
                    (case xaxis_setter F0 x of
                       Inl e \<Rightarrow> (F0, Some e)
                     | Inr F1 \<Rightarrow>
                         (case yaxis_setter F1 y of
                            Inl e \<Rightarrow> (F1, Some e)
                          | Inr F2 \<Rightarrow> (F2, None))))))"

subsection \<open>Construction from a coefficient list\<close>

type_synonym matrix = "real list list"

text \<open>
  \<open>Frame.from_matrix\<close> calls three functions of compas.geometry.transformations that are
  not among the sources: \<open>decompose_matrix\<close> (scale, shear, angles, translation,
  perspective; it may raise), \<open>matrix_from_euler_angles\<close> and
  \<open>basis_vectors_from_matrix\<close>. They are parameters of the model.
\<close>

definition from_matrix ::
  "(matrix \<Rightarrow> error + (vec3 \<times> vec3 \<times> vec3 \<times> vec3 \<times> real list)) \<Rightarrow>
   (vec3 \<Rightarrow> bool \<Rightarrow> string \<Rightarrow> matrix) \<Rightarrow> (matrix \<Rightarrow> vec3 \<times> vec3) \<Rightarrow>
   matrix \<Rightarrow> error + frame" where
  "from_matrix decompose_matrix matrix_from_euler_angles basis_vectors_from_matrix M =
     (case decompose_matrix M of
        Inl e \<Rightarrow> Inl e
      | Inr (sc, sh, a, pt, p) \<Rightarrow>
          (let R = matrix_from_euler_angles a True ''xyz'' in
           case basis_vectors_from_matrix R of (x, y) \<Rightarrow> Frame pt x y))"

text \<open>
  \<open>Frame.from_list\<close>. A list of 12 values is extended in place by \<open>[0, 0, 0, 1]\<close>, so
  the result carries the caller's list after the call. The matrix is filled row by row
  from \<open>values[i * 4 + j]\<close>.
\<close>

definition matrix_of_values :: "real list \<Rightarrow> matrix" where
  "matrix_of_values values = map (\<lambda>i. map (\<lambda>j. values ! (i * 4 + j)) [0..<4]) [0..<4]"

definition from_list ::
  "(matrix \<Rightarrow> error + (vec3 \<times> vec3 \<times> vec3 \<times> vec3 \<times> real list)) \<Rightarrow>
   (vec3 \<Rightarrow> bool \<Rightarrow> string \<Rightarrow> matrix) \<Rightarrow> (matrix \<Rightarrow> vec3 \<times> vec3) \<Rightarrow>
   real list \<Rightarrow> real list \<times> (error + frame)" where
  "from_list decompose_matrix matrix_from_euler_angles basis_vectors_from_matrix values =
     (let values1 = (if length values = 12 then values @ [0, 0, 0, 1] else values) in
      if length values1 \<noteq> 16 then (values1, Inl ValueError)
      else (values1,
            from_matrix decompose_matrix matrix_from_euler_angles basis_vectors_from_matrix
              (matrix_of_values values1)))"

subsection \<open>Local and global coordinates\<close>

definition is_mat4 :: "matrix \<Rightarrow> bool" where
  "is_mat4 M \<longleftrightarrow> length M = 4 \<and> (\<forall>r \<in> set M. length r = 4)"

definition identity_matrix4 :: matrix where
  "identity_matrix4 = [[1, 0, 0, 0], [0, 1, 0, 0], [0, 0, 1, 0], [0, 0, 0, 1]]"

definition multiply_matrices :: "matrix \<Rightarrow> matrix \<Rightarrow> matrix" where
  "multiply_matrices A B =
     map (\<lambda>i. map (\<lambda>j. sum_list (map (\<lambda>k. A ! i ! k * B ! k ! j) [0..<4])) [0..<4]) [0..<4]"

text \<open>
  Modelled from the spec: \<open>matrix_from_basis_vectors\<close> (compas.geometry.transformations,
  not among the sources). Section 4.3: orthonormalize, deriving the z-axis from the cross
  product of x-axis and y-axis and the y-axis again from z-axis cross x-axis (the x-axis
  is authoritative), then assemble; the axes are the columns of the rotation part, as
  the frame's matrix of section 4.4 (rotation = basis vectors) has them.
\<close>

definition matrix_from_basis_vectors :: "vec3 \<Rightarrow> vec3 \<Rightarrow> error + matrix" where
  "matrix_from_basis_vectors x y =
     (case unitize x of
        Inl e \<Rightarrow> Inl e
      | Inr x1 \<Rightarrow>
          (case unitize y of
             Inl e \<Rightarrow> Inl e
           | Inr y1 \<Rightarrow>
               (case cross_vectors x1 y1 of (z1, z2, z3) \<Rightarrow>
                 (case cross_vectors (z1, z2, z3) x1 of (y1', y2', y3') \<Rightarrow>
                   (case x1 of (x1', x2', x3') \<Rightarrow>
                      Inr [[x1', y1', z1, 0], [x2', y2', z2, 0], [x3', y3', z3, 0],
                           [0, 0, 0, 1]])))))"

text \<open>
  Modelled from the spec: \<open>matrix_from_frame\<close> (not among the sources). Section 4.4: the
  frame's transformation matrix has the origin as translation and the basis vectors,
  with the derived z-axis, as rotation.
\<close>

definition matrix_from_frame :: "frame \<Rightarrow> matrix" where
  "matrix_from_frame F =
     (case xaxis F of (x1, x2, x3) \<Rightarrow>
      case yaxis F of (y1, y2, y3) \<Rightarrow>
      case zaxis F of (z1, z2, z3) \<Rightarrow>
      case point F of (o1, o2, o3) \<Rightarrow>
        [[x1, y1, z1, o1], [x2, y2, z2, o2], [x3, y3, z3, o3], [0, 0, 0, 1]])"

text \<open>
  Modelled from the spec: \<open>Point.transform\<close> (the class \<open>Point\<close> is not among the
  sources). The point is extended by the homogeneous coordinate 1 and multiplied by the
  first three rows of the 4 x 4 matrix; a matrix of another shape is refused.
\<close>

definition apply_row :: "real list \<Rightarrow> vec3 \<Rightarrow> real" where
  "apply_row r p = (case p of (x, y, z) \<Rightarrow> r ! 0 * x + r ! 1 * y + r ! 2 * z + r ! 3)"

definition transform_point :: "matrix \<Rightarrow> vec3 \<Rightarrow> error + vec3" where
  "transform_point T p =
     (if is_mat4 T then Inr (apply_row (T ! 0) p, apply_row (T ! 1) p, apply_row (T ! 2) p)
      else Inl ValueError)"

text \<open>
  \<open>inverse\<close> (compas.geometry.transformations) is not among the sources; both
  re-expression methods below are in frame.py. The matrix inverse is a parameter, and
  \<open>is_inverse\<close> is what it has to return: a 4 x 4 matrix that is an inverse on both
  sides.
\<close>

definition is_inverse :: "matrix \<Rightarrow> matrix \<Rightarrow> bool" where
  "is_inverse Ti M \<longleftrightarrow>
     is_mat4 Ti \<and> multiply_matrices Ti M = identity_matrix4 \<and>
     multiply_matrices M Ti = identity_matrix4"

definition represent_point_in_local_coordinates ::
  "(matrix \<Rightarrow> error + matrix) \<Rightarrow> frame \<Rightarrow> vec3 \<Rightarrow> error + vec3" where
  "represent_point_in_local_coordinates inverse_fn F p =
     (let pt = subtract_vectors p (point F) in
      case matrix_from_basis_vectors (xaxis F) (yaxis F) of
        Inl e \<Rightarrow> Inl e
      | Inr R \<Rightarrow>
          (case inverse_fn R of
             Inl e \<Rightarrow> Inl e
           | Inr T \<Rightarrow> transform_point T pt))"

definition represent_point_in_global_coordinates :: "frame \<Rightarrow> vec3 \<Rightarrow> error + vec3" where
  "represent_point_in_global_coordinates F p = transform_point (matrix_from_frame F) p"

section \<open>Best-fit estimators (bestfit_numpy.py)\<close>

subsection \<open>Plane\<close>

text \<open>
  An array of shape (n, 3) is a list of triples, an array of shape (3, 3) the triple of
  its rows.
\<close>

type_synonym mat3 = "vec3 \<times> vec3 \<times> vec3"

definition sum_axis0 :: "vec3 list \<Rightarrow> vec3" where
  "sum_axis0 xyz = foldr add_vectors xyz (0, 0, 0)"

text \<open>
  \<open>c = sum(xyz, axis=0) / n\<close>. numpy divides the zero vector by the integer 0 without
  raising and yields NaN in every component; \<open>None\<close> stands for that row of NaN.
\<close>

definition centroid :: "vec3 list \<Rightarrow> vec3 option" where
  "centroid xyz =
     (if xyz = [] then None
      else Some (scale_vector (sum_axis0 xyz) (1 / real (length xyz))))"

text \<open>\<open>Yt = xyz - c\<close>: with no row in \<open>xyz\<close> the difference has no row either.\<close>

definition centered :: "vec3 list \<Rightarrow> vec3 list" where
  "centered xyz =
     (case centroid xyz of
        None \<Rightarrow> []
      | Some c \<Rightarrow> map (\<lambda>p. subtract_vectors p c) xyz)"

text \<open>\<open>Yt.T.dot(Yt)\<close>: row j of the product is the sum over the rows y of y[j] * y.\<close>

fun gram :: "vec3 list \<Rightarrow> mat3" where
  "gram [] = ((0, 0, 0), (0, 0, 0), (0, 0, 0))"
| "gram ((a, b, c) # ys) =
     (case gram ys of (r1, r2, r3) \<Rightarrow>
        (add_vectors (scale_vector (a, b, c) a) r1,
         add_vectors (scale_vector (a, b, c) b) r2,
         add_vectors (scale_vector (a, b, c) c) r3))"

fun scale_mat3 :: "real \<Rightarrow> mat3 \<Rightarrow> mat3" where
  "scale_mat3 m (r1, r2, r3) = (scale_vector r1 m, scale_vector r2 m, scale_vector r3 m)"

definition covariance :: "vec3 list \<Rightarrow> mat3" where
  "covariance xyz = scale_mat3 (1 / (real (length xyz) - 1)) (gram (centered xyz))"

text \<open>
  \<open>bestfit_plane_numpy\<close>. \<open>scipy.linalg.svd\<close> is a parameter: it returns the factors
  \<open>(u, s, vT)\<close> or raises. \<open>n\<close> is a Python integer, so \<open>1.0 / (n - 1.0)\<close> raises
  ZeroDivisionError for one point. The result is the centroid and the row \<open>vT[2, :]\<close>.
\<close>

definition bestfit_plane_numpy ::
  "(mat3 \<Rightarrow> error + (mat3 \<times> vec3 \<times> mat3)) \<Rightarrow> vec3 list \<Rightarrow> error + (vec3 option \<times> vec3)" where
  "bestfit_plane_numpy svd points =
     (let xyz = points; n = real (length xyz) in
      if n - 1 = 0 then Inl ZeroDivisionError
      else
        (let c = centroid xyz; C = covariance xyz in
         case svd C of
           Inl e \<Rightarrow> Inl e
         | Inr (u, s, vT) \<Rightarrow> (case vT of (v0, v1, v2) \<Rightarrow> Inr (c, v2))))"

text \<open>
  What a singular value decomposition is: \<open>C = u * diag(s) * vT\<close> with \<open>u\<close> and \<open>vT\<close>
  orthogonal and the singular values in descending order, none negative.
\<close>

fun mat3_vec :: "mat3 \<Rightarrow> vec3 \<Rightarrow> vec3" where
  "mat3_vec (r1, r2, r3) v = (dot_vectors r1 v, dot_vectors r2 v, dot_vectors r3 v)"

fun transpose3 :: "mat3 \<Rightarrow> mat3" where
  "transpose3 ((a11, a12, a13), (a21, a22, a23), (a31, a32, a33)) =
     ((a11, a21, a31), (a12, a22, a32), (a13, a23, a33))"

fun mat3_mul :: "mat3 \<Rightarrow> mat3 \<Rightarrow> mat3" where
  "mat3_mul (r1, r2, r3) B =
     (case transpose3 B of (c1, c2, c3) \<Rightarrow>
        ((dot_vectors r1 c1, dot_vectors r1 c2, dot_vectors r1 c3),
         (dot_vectors r2 c1, dot_vectors r2 c2, dot_vectors r2 c3),
         (dot_vectors r3 c1, dot_vectors r3 c2, dot_vectors r3 c3)))"

definition identity3 :: mat3 where
  "identity3 = ((1, 0, 0), (0, 1, 0), (0, 0, 1))"

fun diag3 :: "vec3 \<Rightarrow> mat3" where
  "diag3 (s1, s2, s3) = ((s1, 0, 0), (0, s2, 0), (0, 0, s3))"

definition orthogonal3 :: "mat3 \<Rightarrow> bool" where
  "orthogonal3 M \<longleftrightarrow>
     mat3_mul M (transpose3 M) = identity3 \<and> mat3_mul (transpose3 M) M = identity3"

definition is_svd :: "mat3 \<Rightarrow> mat3 \<Rightarrow> vec3 \<Rightarrow> mat3 \<Rightarrow> bool" where
  "is_svd C u s vT \<longleftrightarrow>
     C = mat3_mul u (mat3_mul (diag3 s) vT) \<and> orthogonal3 u \<and> orthogonal3 vT \<and>
     (case s of (s1, s2, s3) \<Rightarrow> s2 \<le> s1 \<and> s3 \<le> s2 \<and> 0 \<le> s3)"

text \<open>
  The points of a list are collinear when every three of them are: the cross product of
  the two differences vanishes.
\<close>

definition collinear :: "vec3 list \<Rightarrow> bool" where
  "collinear ps \<longleftrightarrow>
     list_all (\<lambda>p. list_all (\<lambda>q. list_all (\<lambda>r.
       cross_vectors (subtract_vectors q p) (subtract_vectors r p) = (0, 0, 0)) ps) ps) ps"

definition on_plane :: "vec3 \<Rightarrow> real \<Rightarrow> vec3 list \<Rightarrow> bool" where
  "on_plane nrm k ps \<longleftrightarrow> list_all (\<lambda>p. dot_vectors nrm p = k) ps"

subsection \<open>Sphere\<close>

type_synonym vec4 = "real \<times> real \<times> real \<times> real"

fun dot4 :: "vec4 \<Rightarrow> vec4 \<Rightarrow> real" where
  "dot4 (a1, a2, a3, a4) (b1, b2, b3, b4) = a1 * b1 + a2 * b2 + a3 * b3 + a4 * b4"

text \<open>\<open>numpy.sqrt\<close> of a negative number is NaN (a warning, no exception).\<close>

definition np_sqrt :: "real \<Rightarrow> real option" where
  "np_sqrt t = (if t < 0 then None else Some (sqrt t))"

definition sphere_A :: "vec3 list \<Rightarrow> vec4 list" where
  "sphere_A points = map (\<lambda>(x, y, z). (x * 2, y * 2, z * 2, 1)) points"

definition sphere_f :: "vec3 list \<Rightarrow> real list" where
  "sphere_f points = map (\<lambda>(x, y, z). x * x + y * y + z * z) points"

text \<open>
  \<open>bestfit_sphere_numpy\<close>. \<open>numpy.linalg.lstsq\<close> is a parameter: it returns the four
  coefficients of its solution or raises.
\<close>

definition bestfit_sphere_numpy ::
  "(vec4 list \<Rightarrow> real list \<Rightarrow> error + vec4) \<Rightarrow> vec3 list \<Rightarrow> error + (vec3 \<times> real option)" where
  "bestfit_sphere_numpy lstsq points =
     (let A = sphere_A points; f = sphere_f points in
      case lstsq A f of
        Inl e \<Rightarrow> Inl e
      | Inr (C0, C1, C2, C3) \<Rightarrow>
          (let t = C0 * C0 + C1 * C1 + C2 * C2 + C3; radius = np_sqrt t in
           Inr ((C0, C1, C2), radius)))"

text \<open>
  What a least-squares solution is: no vector of coefficients has a smaller sum of
  squared residuals.
\<close>

definition residual :: "vec4 list \<Rightarrow> real list \<Rightarrow> vec4 \<Rightarrow> real" where
  "residual A f x = sum_list (map2 (\<lambda>row b. (dot4 row x - b)\<^sup>2) A f)"

definition is_lstsq :: "vec4 list \<Rightarrow> real list \<Rightarrow> vec4 \<Rightarrow> bool" where
  "is_lstsq A f C \<longleftrightarrow> (\<forall>x. residual A f C \<le> residual A f x)"

text \<open>
  The residual of one row of the linearized sphere equation: the row of \<open>A\<close> for the
  point times the coefficients, minus the entry of \<open>f\<close>.
\<close>

fun sphere_row_residual :: "vec3 \<Rightarrow> vec4 \<Rightarrow> real" where
  "sphere_row_residual (x, y, z) c = dot4 (x * 2, y * 2, z * 2, 1) c - (x * x + y * y + z * z)"

text \<open>
  Four points are coplanar when the triple product of the three differences vanishes;
  a list of points is coplanar when every four of them are.
\<close>

definition coplanar :: "vec3 list \<Rightarrow> bool" where
  "coplanar ps \<longleftrightarrow>
     list_all (\<lambda>a. list_all (\<lambda>b. list_all (\<lambda>c. list_all (\<lambda>d.
       dot_vectors (subtract_vectors b a)
         (cross_vectors (subtract_vectors c a) (subtract_vectors d a)) = 0) ps) ps) ps) ps"

definition on_sphere :: "vec3 \<Rightarrow> real \<Rightarrow> vec3 list \<Rightarrow> bool" where
  "on_sphere ctr r ps \<longleftrightarrow>
     list_all (\<lambda>p. length_vector (subtract_vectors p ctr) = r) ps"

subsection \<open>Circle\<close>

text \<open>
  numpy's mean of an empty array is NaN; \<open>None\<close> stands for it. \<open>dist_xy\<close> is
  the local function \<open>dist\<close> of the source, with the arrays x and y it closes over.
\<close>

definition np_mean :: "real list \<Rightarrow> real option" where
  "np_mean xs = (if xs = [] then None else Some (sum_list xs / real (length xs)))"

definition dist_xy :: "real list \<Rightarrow> real list \<Rightarrow> real \<times> real \<Rightarrow> real list" where
  "dist_xy x y c = (case c of (xc, yc) \<Rightarrow> map2 (\<lambda>xi yi. sqrt ((xi - xc)\<^sup>2 + (yi - yc)\<^sup>2)) x y)"

text \<open>
  The residual function handed to the solver: \<open>Ri - Ri.mean()\<close>. With no point the
  array is empty and its mean is never used.
\<close>

definition circle_f :: "real list \<Rightarrow> real list \<Rightarrow> real \<times> real \<Rightarrow> real list" where
  "circle_f x y c =
     (let Ri = dist_xy x y c in map (\<lambda>r. r - sum_list Ri / real (length Ri)) Ri)"

text \<open>
  \<open>bestfit_circle_numpy\<close>. \<open>pca_numpy\<close>, \<open>local_coords_numpy\<close> and
  \<open>global_coords_numpy\<close> (compas.numerical and compas.geometry, not among the sources)
  and \<open>scipy.optimize.leastsq\<close> are parameters. \<open>leastsq\<close> returns the parameters it
  stopped at and the integer flag \<open>ier\<close> (1 to 4: a solution was found), or raises on
  improper input; the source binds \<open>ier\<close> and never reads it. The \<open>print\<close> of the
  residue is left out. The result is the centre in global coordinates (the first row of
  what \<open>global_coords_numpy\<close> returns), the third axis of the local frame and the mean
  distance.
\<close>

definition bestfit_circle_numpy ::
  "(vec3 list \<Rightarrow> error + (vec3 \<times> mat3)) \<Rightarrow>
   (vec3 \<Rightarrow> mat3 \<Rightarrow> vec3 list \<Rightarrow> vec3 list) \<Rightarrow>
   (vec3 \<Rightarrow> mat3 \<Rightarrow> vec3 list \<Rightarrow> vec3 list) \<Rightarrow>
   ((real \<times> real \<Rightarrow> real list) \<Rightarrow> real option \<times> real option \<Rightarrow> error + ((real \<times> real) \<times> int)) \<Rightarrow>
   vec3 list \<Rightarrow> error + (vec3 \<times> vec3 \<times> real option)" where
  "bestfit_circle_numpy pca_numpy local_coords_numpy global_coords_numpy leastsq points =
     (case pca_numpy points of
        Inl e \<Rightarrow> Inl e
      | Inr (org, uvw) \<Rightarrow>
          (let rst = local_coords_numpy org uvw points;
               x = map (\<lambda>(r, s, t). r) rst;
               y = map (\<lambda>(r, s, t). s) rst;
               c0 = (np_mean x, np_mean y)
           in case leastsq (circle_f x y) c0 of
                Inl e \<Rightarrow> Inl e
              | Inr (c, ier) \<Rightarrow>
                  (let Ri = dist_xy x y c; R = np_mean Ri in
                   case global_coords_numpy org uvw [(fst c, snd c, 0)] of
                     [] \<Rightarrow> Inl IndexError
                   | xyz # _ \<Rightarrow> (case uvw of (u, v, w) \<Rightarrow> Inr (xyz, w, R)))))"

section \<open>Vector identities\<close>

lemma dot_vectors_commute: "dot_vectors a b = dot_vectors b a"
  by (cases a, cases b) simp

lemma dot_self_nonneg: "0 \<le> dot_vectors v v"
  by (cases v) simp

lemma dot_self_zero_iff: "dot_vectors v v = 0 \<longleftrightarrow> v = (0, 0, 0)"
proof (cases v)
  case (fields a b c)
  have "a * a + b * b + c * c = 0 \<longleftrightarrow> a = 0 \<and> b = 0 \<and> c = 0"
    by (smt (verit) mult_eq_0_iff zero_le_square add_nonneg_nonneg)
  with fields show ?thesis by simp
qed

lemma length_vector_zero_iff: "length_vector v = 0 \<longleftrightarrow> v = (0, 0, 0)"
  by (simp add: length_vector_def dot_self_zero_iff)

lemma length_vector_one_iff: "length_vector v = 1 \<longleftrightarrow> dot_vectors v v = 1"
  by (simp add: length_vector_def)

lemma dot_cross_left: "dot_vectors (cross_vectors a b) a = 0"
  by (cases a, cases b) (simp add: algebra_simps)

lemma dot_cross_right: "dot_vectors (cross_vectors a b) b = 0"
  by (cases a, cases b) (simp add: algebra_simps)

lemma lagrange_identity:
  "dot_vectors (cross_vectors a b) (cross_vectors a b) =
     dot_vectors a a * dot_vectors b b - dot_vectors a b * dot_vectors a b"
  by (cases a, cases b) (simp add: algebra_simps)

lemma triple_cross_back:
  "cross_vectors (cross_vectors a b) a =
     subtract_vectors (scale_vector b (dot_vectors a a)) (scale_vector a (dot_vectors a b))"
  by (cases a, cases b) (simp add: algebra_simps)

lemma dot_scale_scale:
  "dot_vectors (scale_vector a s) (scale_vector b t) = s * t * dot_vectors a b"
  by (cases a, cases b) (simp add: algebra_simps)

lemma dot_scale_left: "dot_vectors (scale_vector a s) b = s * dot_vectors a b"
  by (cases a, cases b) (simp add: algebra_simps)

lemma scale_vector_one: "scale_vector v 1 = v"
  by (cases v) simp

lemma cross_scale_left:
  "cross_vectors (scale_vector a s) b = scale_vector (cross_vectors a b) s"
  by (cases a, cases b) (simp add: algebra_simps)

lemma unitize_unit:
  assumes "unitize v = Inr u"
  shows "dot_vectors u u = 1"
proof -
  from assms have nz: "length_vector v \<noteq> 0"
    and u: "u = scale_vector v (1 / length_vector v)"
    by (auto simp: unitize_def split: if_splits)
  have sq: "length_vector v * length_vector v = dot_vectors v v"
    by (simp add: length_vector_def dot_self_nonneg)
  from nz have nz': "dot_vectors v v \<noteq> 0"
    by (simp add: length_vector_def)
  have "dot_vectors u u = dot_vectors v v / (length_vector v * length_vector v)"
    by (simp add: u dot_scale_scale)
  also have "\<dots> = 1"
    using nz' by (simp add: sq)
  finally show ?thesis .
qed

lemma unitize_of_unit:
  assumes "length_vector v = 1"
  shows "unitize v = Inr v"
  using assms by (simp add: unitize_def scale_vector_one)

lemma unitize_defined:
  assumes "v \<noteq> (0, 0, 0)"
  shows "unitize v = Inr (scale_vector v (1 / length_vector v))"
  using assms by (simp add: unitize_def length_vector_zero_iff)

section \<open>Frame: construction and the orthonormal invariant\<close>

lemma orthonormal_pair_invariant:
  assumes "dot_vectors (xaxis F) (xaxis F) = 1" "dot_vectors (yaxis F) (yaxis F) = 1"
    "dot_vectors (xaxis F) (yaxis F) = 0"
  shows "frame_invariant F"
  using assms
  by (simp add: frame_invariant_def zaxis_def normal_def length_vector_one_iff
      lagrange_identity dot_cross_left dot_cross_right)

lemma yaxis_setter_result:
  assumes x: "dot_vectors (xaxis F) (xaxis F) = 1"
    and r: "yaxis_setter F v = Inr F'"
  shows "xaxis F' = xaxis F \<and> point F' = point F \<and>
         dot_vectors (yaxis F') (yaxis F') = 1 \<and> dot_vectors (xaxis F') (yaxis F') = 0"
proof -
  from r obtain y z where y: "unitize v = Inr y"
    and z: "unitize (cross_vectors (xaxis F) y) = Inr z"
    and F': "F' = F\<lparr>yaxis := cross_vectors z (xaxis F)\<rparr>"
    by (auto simp: yaxis_setter_def split: sum.splits)
  from z have zz: "dot_vectors z z = 1" by (rule unitize_unit)
  from z have "z = scale_vector (cross_vectors (xaxis F) y) (1 / length_vector (cross_vectors (xaxis F) y))"
    by (auto simp: unitize_def split: if_splits)
  then have zx: "dot_vectors z (xaxis F) = 0"
    by (simp add: dot_scale_left dot_cross_left)
  have "dot_vectors (cross_vectors z (xaxis F)) (cross_vectors z (xaxis F)) = 1"
    by (simp add: lagrange_identity zz x zx)
  moreover have "dot_vectors (xaxis F) (cross_vectors z (xaxis F)) = 0"
    by (simp add: dot_vectors_commute [of "xaxis F"] dot_cross_right)
  ultimately show ?thesis by (simp add: F')
qed

lemma Frame_result:
  assumes "Frame p x y = Inr F"
  shows "point F = p \<and> unitize x = Inr (xaxis F) \<and> frame_invariant F"
proof -
  from assms obtain u where u: "unitize x = Inr u"
    and ys: "yaxis_setter (blank_frame\<lparr>point := p, xaxis := u\<rparr>) y = Inr F"
    by (auto simp: Frame_def point_setter_def xaxis_setter_def split: sum.splits)
  let ?F1 = "blank_frame\<lparr>point := p, xaxis := u\<rparr>"
  have "dot_vectors (xaxis ?F1) (xaxis ?F1) = 1"
    using unitize_unit [OF u] by simp
  from yaxis_setter_result [OF this ys]
  have a: "xaxis F = u" "point F = p" "dot_vectors (yaxis F) (yaxis F) = 1"
    "dot_vectors (xaxis F) (yaxis F) = 0" by auto
  have "frame_invariant F"
    using a unitize_unit [OF u] by (intro orthonormal_pair_invariant) simp_all
  then show ?thesis using a u by simp
qed

lemma sqrt_25: "sqrt 25 = 5"
proof -
  have "sqrt (5\<^sup>2) = 5" by (simp del: power2_eq_square)
  then show ?thesis by simp
qed

lemma yaxis_setter_defined:
  assumes nz: "cross_vectors (xaxis F) v \<noteq> (0, 0, 0)"
  shows "\<exists>F'. yaxis_setter F v = Inr F'"
proof -
  have vnz: "v \<noteq> (0, 0, 0)"
    using nz by (cases "xaxis F") auto
  then have lv: "length_vector v \<noteq> 0" by (simp add: length_vector_zero_iff)
  have uv: "unitize v = Inr (scale_vector v (1 / length_vector v))"
    using vnz by (rule unitize_defined)
  have "cross_vectors (xaxis F) (scale_vector v (1 / length_vector v)) \<noteq> (0, 0, 0)"
    using nz lv by (cases "xaxis F", cases v) (auto simp: field_simps)
  then obtain z where "unitize (cross_vectors (xaxis F) (scale_vector v (1 / length_vector v))) = Inr z"
    using unitize_defined by blast
  then show ?thesis
    by (simp add: yaxis_setter_def uv)
qed

lemma Frame_defined:
  assumes "x \<noteq> (0, 0, 0)" and "cross_vectors x y \<noteq> (0, 0, 0)"
  shows "\<exists>F. Frame p x y = Inr F"
proof -
  have ux: "unitize x = Inr (scale_vector x (1 / length_vector x))"
    using assms(1) by (rule unitize_defined)
  let ?F1 = "blank_frame\<lparr>point := p, xaxis := scale_vector x (1 / length_vector x)\<rparr>"
  have lx: "length_vector x \<noteq> 0" using assms(1) by (simp add: length_vector_zero_iff)
  have "cross_vectors (xaxis ?F1) y \<noteq> (0, 0, 0)"
    using assms(2) lx by (cases x, cases y) (auto simp: field_simps)
  then obtain F where "yaxis_setter ?F1 y = Inr F"
    using yaxis_setter_defined by blast
  then show ?thesis
    by (simp add: Frame_def point_setter_def xaxis_setter_def ux)
qed

lemma transform_result:
  assumes "transform ops F T = (F', None)"
  shows "frame_invariant F'"
proof -
  from assms obtain p x y F1 where
    x: "xaxis_setter (F\<lparr>point := p\<rparr>) x = Inr F1" and y: "yaxis_setter F1 y = Inr F'"
    by (auto simp: transform_def Let_def point_setter_def split: sum.splits prod.splits)
  from x obtain u where u: "unitize x = Inr u" and F1: "F1 = F\<lparr>point := p, xaxis := u\<rparr>"
    by (auto simp: xaxis_setter_def split: sum.splits)
  have "dot_vectors (xaxis F1) (xaxis F1) = 1"
    using unitize_unit [OF u] by (simp add: F1)
  from yaxis_setter_result [OF this y] this show ?thesis
    by (intro orthonormal_pair_invariant) auto
qed

lemma length_vector_axis3: "0 \<le> c \<Longrightarrow> length_vector (0, 0, c) = c"
  by (simp add: length_vector_def)

lemma length_vector_axis2: "0 \<le> c \<Longrightarrow> length_vector (0, c, 0) = c"
  by (simp add: length_vector_def)

lemma length_vector_axis1: "0 \<le> c \<Longrightarrow> length_vector (c, 0, 0) = c"
  by (simp add: length_vector_def)

lemma frame_eq_35: "length_vector (3, 4, 0) = 5"
  by (simp add: length_vector_def sqrt_25)

lemma list4_exhaust:
  assumes "length r = 4"
  obtains a b c d where "r = [a, b, c, d]"
proof -
  from assms obtain a r1 where "r = a # r1" "length r1 = 3" by (cases r) auto
  moreover then obtain b r2 where "r1 = b # r2" "length r2 = 2" by (cases r1) auto
  moreover then obtain c r3 where "r2 = c # r3" "length r3 = 1" by (cases r2) auto
  moreover then obtain d where "r3 = [d]" by (cases r3) auto
  ultimately show ?thesis using that by simp
qed

lemma mat4_exhaust:
  assumes "is_mat4 M"
  obtains a11 a12 a13 a14 a21 a22 a23 a24 a31 a32 a33 a34 a41 a42 a43 a44 where
    "M = [[a11, a12, a13, a14], [a21, a22, a23, a24], [a31, a32, a33, a34], [a41, a42, a43, a44]]"
proof -
  from assms have "length M = 4" by (simp add: is_mat4_def)
  then obtain r1 r2 r3 r4 where M: "M = [r1, r2, r3, r4]" by (rule list4_exhaust)
  with assms have "length r1 = 4" "length r2 = 4" "length r3 = 4" "length r4 = 4"
    by (simp_all add: is_mat4_def)
  then show ?thesis
    using that M by (elim list4_exhaust) blast
qed

lemma upt4: "[0..<4] = [0, 1, 2, 3]"
  by (simp add: upt_rec)

lemma orthonormal_back_cross:
  assumes "dot_vectors x x = 1" "dot_vectors y y = 1" "dot_vectors x y = 0"
  shows "cross_vectors (cross_vectors x y) x = y"
proof -
  have "cross_vectors (cross_vectors x y) x =
     subtract_vectors (scale_vector y 1) (scale_vector x 0)"
    using assms by (simp add: triple_cross_back)
  then show ?thesis by (cases x, cases y) simp
qed

lemma matrix_from_basis_vectors_invariant:
  assumes "frame_invariant F"
  shows "matrix_from_basis_vectors (xaxis F) (yaxis F) =
     Inr (matrix_from_frame (F\<lparr>point := (0, 0, 0)\<rparr>))"
proof -
  from assms have u: "length_vector (xaxis F) = 1" "length_vector (yaxis F) = 1"
    and d: "dot_vectors (xaxis F) (xaxis F) = 1" "dot_vectors (yaxis F) (yaxis F) = 1"
      "dot_vectors (xaxis F) (yaxis F) = 0"
    by (simp_all add: frame_invariant_def length_vector_one_iff)
  have ybk: "cross_vectors (cross_vectors (xaxis F) (yaxis F)) (xaxis F) = yaxis F"
    using d by (rule orthonormal_back_cross)
  obtain x1 x2 x3 where x: "xaxis F = (x1, x2, x3)" by (cases "xaxis F")
  obtain y1 y2 y3 where y: "yaxis F = (y1, y2, y3)" by (cases "yaxis F")
  obtain z1 z2 z3 where z: "cross_vectors (x1, x2, x3) (y1, y2, y3) = (z1, z2, z3)"
    by (cases "cross_vectors (x1, x2, x3) (y1, y2, y3)")
  have ux: "unitize (x1, x2, x3) = Inr (x1, x2, x3)"
    using unitize_of_unit u(1) x by simp
  have uy: "unitize (y1, y2, y3) = Inr (y1, y2, y3)"
    using unitize_of_unit u(2) y by simp
  have bk: "cross_vectors (z1, z2, z3) (x1, x2, x3) = (y1, y2, y3)"
    using ybk x y z by simp
  show ?thesis
    by (simp add: matrix_from_basis_vectors_def matrix_from_frame_def
        zaxis_def normal_def x y ux uy z bk del: cross_vectors.simps)
qed


subsection \<open>Construction from a matrix\<close>

lemma Frame_total:
  assumes "x \<noteq> (0, 0, 0)" and "cross_vectors x y \<noteq> (0, 0, 0)"
  shows "\<exists>F. Frame pt x y = Inr F \<and> point F = pt \<and> unitize x = Inr (xaxis F) \<and>
             frame_invariant F"
proof -
  from Frame_defined [OF assms] obtain F where F: "Frame pt x y = Inr F" by blast
  with Frame_result [OF F] show ?thesis by blast
qed

lemma Frame_raises_only_degenerate:
  assumes "Frame pt x y = Inl e"
  shows "e = DegenerateInputError"
  using assms
  by (auto simp: Frame_def point_setter_def xaxis_setter_def yaxis_setter_def unitize_def
      split: sum.splits if_splits)

lemma from_matrix_constructs:
  assumes "dm M = Inr (sc, sh, a, pt, p)" and "bvm (mfe a True ''xyz'') = (x, y)"
    and "x \<noteq> (0, 0, 0)" and "cross_vectors x y \<noteq> (0, 0, 0)"
  shows "\<exists>F. from_matrix dm mfe bvm M = Inr F \<and> point F = pt \<and>
             unitize x = Inr (xaxis F) \<and> frame_invariant F"
  using Frame_total [OF assms(3,4), of pt] assms(1,2)
  by (simp add: from_matrix_def)

lemma from_matrix_raises:
  assumes "from_matrix dm mfe bvm M = Inl e"
  shows "dm M = Inl e \<or> e = DegenerateInputError"
proof (cases "dm M")
  case (Inl e')
  with assms show ?thesis by (simp add: from_matrix_def)
next
  case (Inr t)
  obtain sc sh a pt p where t: "t = (sc, sh, a, pt, p)" by (cases t) auto
  obtain x y where xy: "bvm (mfe a True ''xyz'') = (x, y)"
    by (cases "bvm (mfe a True ''xyz'')")
  from assms have "Frame pt x y = Inl e"
    by (simp add: from_matrix_def Inr t xy)
  then show ?thesis by (simp add: Frame_raises_only_degenerate)
qed

lemma from_list_checked:
  assumes "length vals = 12 \<or> length vals = 16"
    and "vals' = (if length vals = 12 then vals @ [0, 0, 0, 1] else vals)"
  shows "from_list dm mfe bvm vals = (vals', from_matrix dm mfe bvm (matrix_of_values vals'))"
  using assms by (auto simp: from_list_def Let_def)

section \<open>Best-fit estimators: auxiliary facts\<close>

lemma orthogonal3_third_row_unit:
  assumes "orthogonal3 (v0, v1, v2)"
  shows "dot_vectors v2 v2 = 1"
proof -
  obtain a1 a2 a3 where a: "v0 = (a1, a2, a3)" by (cases v0)
  obtain b1 b2 b3 where b: "v1 = (b1, b2, b3)" by (cases v1)
  obtain c1 c2 c3 where c: "v2 = (c1, c2, c3)" by (cases v2)
  from assms have "mat3_mul (v0, v1, v2) (transpose3 (v0, v1, v2)) = identity3"
    by (simp add: orthogonal3_def)
  then show ?thesis
    by (simp add: a b c identity3_def)
qed

lemma upright_square_covariance:
  "covariance [(2, 0, 0), (2, 1, 0), (2, 0, 1), (2, 1, 1)] =
     ((0, 0, 0), (0, 1 / 3, 0), (0, 0, 1 / 3))"
  by (simp add: covariance_def centered_def centroid_def sum_axis0_def)

lemma identity_is_svd_of_diagonal:
  assumes "s2 \<le> s1" "s3 \<le> s2" "0 \<le> s3"
  shows "is_svd ((s1, 0, 0), (0, s2, 0), (0, 0, s3)) identity3 (s1, s2, s3) identity3"
  using assms by (simp add: is_svd_def orthogonal3_def identity3_def)

lemma two_point_covariance:
  "covariance [(0, 0, 0), (2, 0, 0)] = ((2, 0, 0), (0, 0, 0), (0, 0, 0))"
  by (simp add: covariance_def centered_def centroid_def sum_axis0_def)

lemma sqrt_49: "sqrt 49 = 7"
proof -
  have "sqrt (7\<^sup>2) = 7" by (simp del: power2_eq_square)
  then show ?thesis by simp
qed

lemma sqrt_9: "sqrt 9 = 3"
proof -
  have "sqrt (3\<^sup>2) = 3" by (simp del: power2_eq_square)
  then show ?thesis by simp
qed

subsection \<open>Vectors perpendicular to a basis\<close>

lemma dual_basis_expansion:
  "scale_vector w (dot_vectors e1 (cross_vectors e2 e3)) =
     add_vectors (scale_vector (cross_vectors e2 e3) (dot_vectors w e1))
       (add_vectors (scale_vector (cross_vectors e3 e1) (dot_vectors w e2))
          (scale_vector (cross_vectors e1 e2) (dot_vectors w e3)))"
  by (cases w, cases e1, cases e2, cases e3) (simp add: algebra_simps)

lemma scale_vector_zero_iff: "scale_vector w s = (0, 0, 0) \<longleftrightarrow> s = 0 \<or> w = (0, 0, 0)"
  by (cases w) auto

lemma perpendicular_to_basis_zero:
  assumes "dot_vectors e1 (cross_vectors e2 e3) \<noteq> 0"
    and "dot_vectors w e1 = 0" and "dot_vectors w e2 = 0" and "dot_vectors w e3 = 0"
  shows "w = (0, 0, 0)"
proof -
  have "scale_vector w (dot_vectors e1 (cross_vectors e2 e3)) = (0, 0, 0)"
    unfolding dual_basis_expansion [of w e1 e2 e3]
    using assms(2-4)
    by (cases "cross_vectors e2 e3", cases "cross_vectors e3 e1", cases "cross_vectors e1 e2") simp
  with assms(1) show ?thesis by (simp add: scale_vector_zero_iff)
qed

lemma dot_subtract_right:
  "dot_vectors w (subtract_vectors a b) = dot_vectors w a - dot_vectors w b"
  by (cases w, cases a, cases b) (simp add: algebra_simps)

lemma dot_add_right:
  "dot_vectors w (add_vectors a b) = dot_vectors w a + dot_vectors w b"
  by (cases w, cases a, cases b) (simp add: algebra_simps)

lemma dot_scale_right: "dot_vectors w (scale_vector a s) = s * dot_vectors w a"
  by (cases w, cases a) (simp add: algebra_simps)

lemma dot_zero_right: "dot_vectors w (0, 0, 0) = 0"
  by (cases w) simp

lemma mat3_vec_gram_perp:
  assumes "\<forall>y \<in> set ys. dot_vectors y v = 0"
  shows "mat3_vec (gram ys) v = (0, 0, 0)"
  using assms
proof (induction ys)
  case Nil
  show ?case by (cases v) simp
next
  case (Cons y ys)
  obtain a b c where y: "y = (a, b, c)" by (cases y)
  obtain r1 r2 r3 where g: "gram ys = (r1, r2, r3)" by (cases "gram ys")
  from Cons have ih: "mat3_vec (r1, r2, r3) v = (0, 0, 0)" and yv: "dot_vectors (a, b, c) v = 0"
    by (simp_all add: g y)
  from ih have r: "dot_vectors r1 v = 0" "dot_vectors r2 v = 0" "dot_vectors r3 v = 0"
    by simp_all
  have "dot_vectors (add_vectors (scale_vector (a, b, c) s) r) v = s * dot_vectors (a, b, c) v + dot_vectors r v"
    for s r
    by (cases r, cases v) (simp add: algebra_simps)
  then show ?case
    using r yv by (simp add: y g del: dot_vectors.simps add_vectors.simps scale_vector.simps)
qed

lemma quadratic_form_gram:
  "dot_vectors v (mat3_vec (gram ys) v) = (\<Sum>y\<leftarrow>ys. (dot_vectors y v)\<^sup>2)"
proof (induction ys)
  case Nil
  show ?case by (cases v) simp
next
  case (Cons y ys)
  obtain a b c where y: "y = (a, b, c)" by (cases y)
  obtain r1 r2 r3 where g: "gram ys = (r1, r2, r3)" by (cases "gram ys")
  obtain v1 v2 v3 where v: "v = (v1, v2, v3)" by (cases v)
  obtain r11 r12 r13 where r1: "r1 = (r11, r12, r13)" by (cases r1)
  obtain r21 r22 r23 where r2: "r2 = (r21, r22, r23)" by (cases r2)
  obtain r31 r32 r33 where r3: "r3 = (r31, r32, r33)" by (cases r3)
  from Cons show ?case
    by (simp add: y g v r1 r2 r3 power2_eq_square algebra_simps)
qed

lemma sum_list_squares_zero:
  assumes "(\<Sum>y\<leftarrow>ys. (f y)\<^sup>2) = (0 :: real)"
  shows "\<forall>y \<in> set ys. f y = 0"
  using assms
proof (induction ys)
  case Nil
  show ?case by simp
next
  case (Cons y ys)
  have nn: "0 \<le> (\<Sum>y\<leftarrow>ys. (f y)\<^sup>2)"
    by (rule sum_list_nonneg) auto
  from Cons.prems have "(f y)\<^sup>2 + (\<Sum>y\<leftarrow>ys. (f y)\<^sup>2) = 0" by simp
  with nn have "(f y)\<^sup>2 = 0" "(\<Sum>y\<leftarrow>ys. (f y)\<^sup>2) = 0"
    by (smt (verit) zero_le_power2)+
  with Cons.IH show ?case by simp
qed

lemma mat3_vec_scale_mat3:
  "mat3_vec (scale_mat3 m G) v = scale_vector (mat3_vec G v) m"
proof -
  obtain r1 r2 r3 where G: "G = (r1, r2, r3)" by (cases G)
  show ?thesis
    by (simp add: G dot_scale_left algebra_simps del: dot_vectors.simps scale_vector.simps)
      (simp add: algebra_simps)
qed

subsection \<open>Singular value decomposition\<close>

lemma mat3_vec_mul:
  "mat3_vec (mat3_mul A B) v = mat3_vec A (mat3_vec B v)"
proof -
  obtain a1 a2 a3 where A: "A = (a1, a2, a3)" by (cases A)
  obtain a11 a12 a13 where a1: "a1 = (a11, a12, a13)" by (cases a1)
  obtain a21 a22 a23 where a2: "a2 = (a21, a22, a23)" by (cases a2)
  obtain a31 a32 a33 where a3: "a3 = (a31, a32, a33)" by (cases a3)
  obtain b1 b2 b3 where B: "B = (b1, b2, b3)" by (cases B)
  obtain b11 b12 b13 where b1: "b1 = (b11, b12, b13)" by (cases b1)
  obtain b21 b22 b23 where b2: "b2 = (b21, b22, b23)" by (cases b2)
  obtain b31 b32 b33 where b3: "b3 = (b31, b32, b33)" by (cases b3)
  obtain v1 v2 v3 where v: "v = (v1, v2, v3)" by (cases v)
  show ?thesis
    by (simp add: A B a1 a2 a3 b1 b2 b3 v algebra_simps)
qed

lemma mat3_vec_identity3: "mat3_vec identity3 v = v"
  by (cases v) (simp add: identity3_def)

lemma mat3_vec_zero: "mat3_vec A (0, 0, 0) = (0, 0, 0)"
proof -
  obtain a1 a2 a3 where A: "A = (a1, a2, a3)" by (cases A)
  show ?thesis by (simp add: A dot_zero_right del: dot_vectors.simps)
qed

lemma orthogonal3_injective:
  assumes "orthogonal3 M" and "mat3_vec M w = (0, 0, 0)"
  shows "w = (0, 0, 0)"
proof -
  from assms(1) have "mat3_mul (transpose3 M) M = identity3"
    by (simp add: orthogonal3_def)
  then have "mat3_vec (transpose3 M) (mat3_vec M w) = w"
    by (metis mat3_vec_mul mat3_vec_identity3)
  with assms(2) show ?thesis by (simp add: mat3_vec_zero)
qed

lemma orthogonal3_third_row_image:
  assumes "orthogonal3 (v0, v1, v2)"
  shows "mat3_vec (v0, v1, v2) v2 = (0, 0, 1)"
proof -
  obtain a1 a2 a3 where a: "v0 = (a1, a2, a3)" by (cases v0)
  obtain b1 b2 b3 where b: "v1 = (b1, b2, b3)" by (cases v1)
  obtain c1 c2 c3 where c: "v2 = (c1, c2, c3)" by (cases v2)
  from assms have "mat3_mul (v0, v1, v2) (transpose3 (v0, v1, v2)) = identity3"
    by (simp add: orthogonal3_def)
  then show ?thesis
    by (simp add: a b c identity3_def)
qed

lemma mat3_vec_diag3:
  "mat3_vec (diag3 (s1, s2, s3)) (w1, w2, w3) = (s1 * w1, s2 * w2, s3 * w3)"
  by simp

lemma svd_null_vector:
  assumes svd: "is_svd C u (s1, s2, s3) (v0, v1, v2)"
    and nz: "n \<noteq> (0, 0, 0)"
    and null: "mat3_vec C n = (0, 0, 0)"
  shows "mat3_vec C v2 = (0, 0, 0)"
proof -
  from svd have C: "C = mat3_mul u (mat3_mul (diag3 (s1, s2, s3)) (v0, v1, v2))"
    and ou: "orthogonal3 u" and ov: "orthogonal3 (v0, v1, v2)"
    and ord: "s2 \<le> s1" "s3 \<le> s2" "0 \<le> s3"
    by (simp_all add: is_svd_def)
  have img: "mat3_vec C w = mat3_vec u (mat3_vec (diag3 (s1, s2, s3)) (mat3_vec (v0, v1, v2) w))"
    for w
    by (simp only: C mat3_vec_mul)
  obtain w1 w2 w3 where w: "mat3_vec (v0, v1, v2) n = (w1, w2, w3)"
    by (cases "mat3_vec (v0, v1, v2) n")
  from null have "mat3_vec (diag3 (s1, s2, s3)) (w1, w2, w3) = (0, 0, 0)"
    using orthogonal3_injective [OF ou] by (simp only: img w)
  then have z: "s1 * w1 = 0" "s2 * w2 = 0" "s3 * w3 = 0"
    by simp_all
  have "s3 = 0"
  proof (rule ccontr)
    assume "s3 \<noteq> 0"
    with ord have "s1 \<noteq> 0" "s2 \<noteq> 0" "s3 \<noteq> 0" by auto
    with z have "(w1, w2, w3) = (0, 0, 0)" by simp
    with w have "mat3_vec (v0, v1, v2) n = (0, 0, 0)" by simp
    with ov have "n = (0, 0, 0)" by (rule orthogonal3_injective)
    with nz show False by simp
  qed
  then have "mat3_vec (diag3 (s1, s2, s3)) (0, 0, 1) = (0, 0, 0)"
    by simp
  then show ?thesis
    by (simp only: img orthogonal3_third_row_image [OF ov] mat3_vec_zero)
qed

subsection \<open>Points on a plane\<close>

lemma scale_vector_cancel:
  assumes "scale_vector v d = scale_vector w d" and "d \<noteq> 0"
  shows "v = w"
  using assms by (cases v, cases w) simp

lemma add_zero_vectors: "add_vectors (0, 0, 0) (add_vectors (0, 0, 0) w) = w"
  by (cases w) simp

lemma scale_vector_by_zero: "scale_vector w 0 = (0, 0, 0)"
  by (cases w) simp

lemma perpendicular_to_pair:
  assumes "dot_vectors w a = 0" and "dot_vectors w b = 0"
  shows "scale_vector w (dot_vectors (cross_vectors a b) (cross_vectors a b)) =
         scale_vector (cross_vectors a b) (dot_vectors w (cross_vectors a b))"
proof -
  have D: "dot_vectors a (cross_vectors b (cross_vectors a b)) =
      dot_vectors (cross_vectors a b) (cross_vectors a b)"
    by (cases a, cases b) (simp add: algebra_simps)
  show ?thesis
    using dual_basis_expansion [of w a b "cross_vectors a b"]
    by (simp only: D assms scale_vector_by_zero add_zero_vectors)
qed

lemma unit_normals_agree:
  assumes e: "cross_vectors a b \<noteq> (0, 0, 0)"
    and va: "dot_vectors v a = 0" and vb: "dot_vectors v b = 0"
    and na: "dot_vectors n a = 0" and nb: "dot_vectors n b = 0"
    and v1: "dot_vectors v v = 1" and n1: "dot_vectors n n = 1"
  shows "v = n \<or> v = scale_vector n (- 1)"
proof -
  define ee where "ee = cross_vectors a b"
  define D where "D = dot_vectors ee ee"
  define al where "al = dot_vectors v ee"
  define be where "be = dot_vectors n ee"
  have Dnz: "D \<noteq> 0" using e by (simp add: D_def ee_def dot_self_zero_iff)
  have pv: "scale_vector v D = scale_vector ee al"
    unfolding D_def al_def ee_def using va vb by (rule perpendicular_to_pair)
  have pn: "scale_vector n D = scale_vector ee be"
    unfolding D_def be_def ee_def using na nb by (rule perpendicular_to_pair)
  have "dot_vectors (scale_vector v D) (scale_vector v D) =
        dot_vectors (scale_vector ee al) (scale_vector ee al)"
    by (simp only: pv)
  then have "D * D = al * al * D"
    by (simp add: dot_scale_scale v1 D_def)
  with Dnz have a2: "al * al = D" by simp
  have "dot_vectors (scale_vector n D) (scale_vector n D) =
        dot_vectors (scale_vector ee be) (scale_vector ee be)"
    by (simp only: pn)
  then have "D * D = be * be * D"
    by (simp add: dot_scale_scale n1 D_def)
  with Dnz have b2: "be * be = D" by simp
  from a2 b2 have "al * al = be * be" by simp
  then have "al = be \<or> al = - be"
    by (metis square_eq_iff)
  then show ?thesis
  proof
    assume "al = be"
    with pv pn have "scale_vector v D = scale_vector n D" by simp
    then have "v = n" using Dnz by (rule scale_vector_cancel)
    then show ?thesis by simp
  next
    assume "al = - be"
    with pv pn have "scale_vector v D = scale_vector (scale_vector n (- 1)) D"
      by (cases ee, cases n) simp
    then have "v = scale_vector n (- 1)" using Dnz by (rule scale_vector_cancel)
    then show ?thesis by simp
  qed
qed

lemma dot_sum_axis0:
  assumes "\<forall>p \<in> set ps. dot_vectors nrm p = k"
  shows "dot_vectors nrm (sum_axis0 ps) = k * real (length ps)"
  using assms
proof (induction ps)
  case Nil
  show ?case by (simp add: sum_axis0_def dot_zero_right del: dot_vectors.simps)
next
  case (Cons p ps)
  then have "dot_vectors nrm (sum_axis0 ps) = k * real (length ps)" "dot_vectors nrm p = k"
    by simp_all
  moreover have "sum_axis0 (p # ps) = add_vectors p (sum_axis0 ps)"
    by (simp add: sum_axis0_def)
  ultimately show ?case
    by (simp add: dot_add_right algebra_simps del: dot_vectors.simps add_vectors.simps)
qed

lemma centroid_on_plane:
  assumes "\<forall>p \<in> set ps. dot_vectors nrm p = k" and "ps \<noteq> []"
  shows "\<exists>c. centroid ps = Some c \<and> dot_vectors nrm c = k"
proof -
  have "dot_vectors nrm (scale_vector (sum_axis0 ps) (1 / real (length ps))) = k"
    using assms(2) by (simp add: dot_scale_right dot_sum_axis0 [OF assms(1)])
  with assms(2) show ?thesis by (simp add: centroid_def)
qed

lemma not_collinear_triple:
  assumes "\<not> collinear ps"
  obtains p q r where "p \<in> set ps" "q \<in> set ps" "r \<in> set ps"
    "cross_vectors (subtract_vectors q p) (subtract_vectors r p) \<noteq> (0, 0, 0)"
  using assms by (auto simp: collinear_def list_all_iff)

lemma lifted_square_covariance:
  "covariance [(0, 0, 5), (1, 0, 5), (0, 1, 5), (1, 1, 5)] =
     ((1 / 3, 0, 0), (0, 1 / 3, 0), (0, 0, 0))"
  by (simp add: covariance_def centered_def centroid_def sum_axis0_def)

subsection \<open>Points on a sphere\<close>

lemma residual_sphere:
  "residual (sphere_A ps) (sphere_f ps) c = (\<Sum>p\<leftarrow>ps. (sphere_row_residual p c)\<^sup>2)"
proof (induction ps)
  case Nil
  show ?case by (simp add: residual_def sphere_A_def sphere_f_def)
next
  case (Cons p ps)
  obtain x y z where p: "p = (x, y, z)" by (cases p)
  from Cons show ?case
    by (simp add: residual_def sphere_A_def sphere_f_def p)
qed

lemma residual_sphere_nonneg: "0 \<le> residual (sphere_A ps) (sphere_f ps) c"
  unfolding residual_sphere by (rule sum_list_nonneg) auto

lemma sphere_row_residual_shift:
  "sphere_row_residual p (C0, C1, C2, C3 + d) = sphere_row_residual p (C0, C1, C2, C3) + d"
  by (cases p) simp

lemma sum_list_shifted_squares:
  "(\<Sum>p\<leftarrow>ps. (f p + d)\<^sup>2) =
     (\<Sum>p\<leftarrow>ps. (f p)\<^sup>2) + 2 * d * (\<Sum>p\<leftarrow>ps. f p) + real (length ps) * d\<^sup>2"
  for f :: "'a \<Rightarrow> real"
  by (induction ps) (simp_all add: power2_eq_square algebra_simps)

lemma lstsq_residuals_sum_zero:
  assumes ne: "ps \<noteq> []"
    and ls: "is_lstsq (sphere_A ps) (sphere_f ps) (C0, C1, C2, C3)"
  shows "(\<Sum>p\<leftarrow>ps. sphere_row_residual p (C0, C1, C2, C3)) = 0"
proof -
  define S where "S = (\<Sum>p\<leftarrow>ps. sphere_row_residual p (C0, C1, C2, C3))"
  define n where "n = real (length ps)"
  have npos: "0 < n" using ne by (simp add: n_def)
  define d where "d = - S / n"
  from ls have "residual (sphere_A ps) (sphere_f ps) (C0, C1, C2, C3) \<le>
      residual (sphere_A ps) (sphere_f ps) (C0, C1, C2, C3 + d)"
    by (simp add: is_lstsq_def)
  then have "0 \<le> 2 * d * S + n * d\<^sup>2"
    by (simp add: residual_sphere sphere_row_residual_shift sum_list_shifted_squares S_def n_def)
  moreover have "2 * d * S + n * d\<^sup>2 = - (S\<^sup>2 / n)"
    using npos by (simp add: d_def power2_eq_square field_simps)
  ultimately have "S\<^sup>2 / n \<le> 0" by simp
  with npos have "S\<^sup>2 \<le> 0" by (simp add: field_simps)
  then have "S = 0" by simp
  then show ?thesis by (simp add: S_def)
qed

lemma sum_squared_distances:
  "(\<Sum>p\<leftarrow>ps. dot_vectors (subtract_vectors p (C0, C1, C2)) (subtract_vectors p (C0, C1, C2))) =
     real (length ps) * (C0 * C0 + C1 * C1 + C2 * C2 + C3) -
     (\<Sum>p\<leftarrow>ps. sphere_row_residual p (C0, C1, C2, C3))"
proof (induction ps)
  case Nil
  show ?case by simp
next
  case (Cons p ps)
  obtain x y z where p: "p = (x, y, z)" by (cases p)
  from Cons show ?case
    by (simp add: p algebra_simps)
qed

lemma lstsq_radicand_nonneg:
  assumes ne: "ps \<noteq> []"
    and ls: "is_lstsq (sphere_A ps) (sphere_f ps) (C0, C1, C2, C3)"
  shows "0 \<le> C0 * C0 + C1 * C1 + C2 * C2 + C3"
proof -
  have "0 \<le> (\<Sum>p\<leftarrow>ps. dot_vectors (subtract_vectors p (C0, C1, C2)) (subtract_vectors p (C0, C1, C2)))"
    by (rule sum_list_nonneg) (auto simp: dot_self_nonneg simp del: dot_vectors.simps)
  then have "0 \<le> real (length ps) * (C0 * C0 + C1 * C1 + C2 * C2 + C3)"
    by (simp add: sum_squared_distances [where ?C3.0 = C3]
        lstsq_residuals_sum_zero [OF ne ls] del: dot_vectors.simps subtract_vectors.simps)
  moreover have "0 < real (length ps)" using ne by simp
  ultimately show ?thesis by (simp add: zero_le_mult_iff)
qed

lemma not_coplanar_quadruple:
  assumes "\<not> coplanar ps"
  obtains a b c d where "a \<in> set ps" "b \<in> set ps" "c \<in> set ps" "d \<in> set ps"
    "dot_vectors (subtract_vectors b a)
       (cross_vectors (subtract_vectors c a) (subtract_vectors d a)) \<noteq> 0"
  using assms by (auto simp: coplanar_def list_all_iff)

lemma sphere_row_residual_difference:
  "sphere_row_residual p (C0, C1, C2, C3) - sphere_row_residual p (D0, D1, D2, D3) =
     2 * dot_vectors (C0 - D0, C1 - D1, C2 - D2) p + (C3 - D3)"
  by (cases p) (simp add: algebra_simps)

lemma sphere_row_residual_exact:
  assumes "length_vector (subtract_vectors p (c1, c2, c3)) = r"
  shows "sphere_row_residual p (c1, c2, c3, r * r - (c1 * c1 + c2 * c2 + c3 * c3)) = 0"
proof -
  obtain x y z where p: "p = (x, y, z)" by (cases p)
  have "0 \<le> dot_vectors (subtract_vectors p (c1, c2, c3)) (subtract_vectors p (c1, c2, c3))"
    by (rule dot_self_nonneg)
  with assms have "dot_vectors (subtract_vectors p (c1, c2, c3)) (subtract_vectors p (c1, c2, c3)) = r * r"
    by (auto simp: length_vector_def simp del: dot_vectors.simps subtract_vectors.simps)
  then show ?thesis
    by (simp add: p algebra_simps)
qed

lemma exact_sphere_solution_unique:
  assumes ncop: "\<not> coplanar ps"
    and ls: "is_lstsq (sphere_A ps) (sphere_f ps) (C0, C1, C2, C3)"
    and sph: "on_sphere (c1, c2, c3) r ps"
  shows "C0 = c1 \<and> C1 = c2 \<and> C2 = c3 \<and> C3 = r * r - (c1 * c1 + c2 * c2 + c3 * c3)"
proof -
  define D3 where "D3 = r * r - (c1 * c1 + c2 * c2 + c3 * c3)"
  from sph have ex: "\<forall>p \<in> set ps. sphere_row_residual p (c1, c2, c3, D3) = 0"
    by (simp add: on_sphere_def list_all_iff D3_def sphere_row_residual_exact)
  then have "residual (sphere_A ps) (sphere_f ps) (c1, c2, c3, D3) = 0"
    by (simp add: residual_sphere cong: map_cong)
  with ls have "residual (sphere_A ps) (sphere_f ps) (C0, C1, C2, C3) \<le> 0"
    by (metis is_lstsq_def)
  with residual_sphere_nonneg [of ps "(C0, C1, C2, C3)"]
  have "(\<Sum>p\<leftarrow>ps. (sphere_row_residual p (C0, C1, C2, C3))\<^sup>2) = 0"
    by (simp add: residual_sphere)
  then have zero: "\<forall>p \<in> set ps. sphere_row_residual p (C0, C1, C2, C3) = 0"
    by (rule sum_list_squares_zero)
  define w where "w = (C0 - c1, C1 - c2, C2 - c3)"
  have lin: "2 * dot_vectors w p + (C3 - D3) = 0" if "p \<in> set ps" for p
    using that zero ex sphere_row_residual_difference [of p C0 C1 C2 C3 c1 c2 c3 D3]
    by (simp add: w_def del: dot_vectors.simps)
  from ncop obtain a b c d where abcd: "a \<in> set ps" "b \<in> set ps" "c \<in> set ps" "d \<in> set ps"
    and tr: "dot_vectors (subtract_vectors b a)
       (cross_vectors (subtract_vectors c a) (subtract_vectors d a)) \<noteq> 0"
    by (rule not_coplanar_quadruple)
  have "dot_vectors w (subtract_vectors b a) = 0"
    using lin [OF abcd(1)] lin [OF abcd(2)] by (simp add: dot_subtract_right)
  moreover have "dot_vectors w (subtract_vectors c a) = 0"
    using lin [OF abcd(1)] lin [OF abcd(3)] by (simp add: dot_subtract_right)
  moreover have "dot_vectors w (subtract_vectors d a) = 0"
    using lin [OF abcd(1)] lin [OF abcd(4)] by (simp add: dot_subtract_right)
  ultimately have w0: "w = (0, 0, 0)"
    using tr by (intro perpendicular_to_basis_zero)
  with lin [OF abcd(1)] have "C3 = D3"
    by (simp add: dot_vectors_commute [of "(0, 0, 0)"] dot_zero_right del: dot_vectors.simps)
  with w0 show ?thesis by (simp add: w_def D3_def)
qed

section \<open>Claims about Frame\<close>

text \<open>
  C7. For unit, mutually orthogonal vectors x, y, z with z = x cross y and every origin,
  the constructor returns a frame that stores the origin, x as x-axis and y as y-axis,
  and whose derived z-axis is z.
\<close>

theorem Frame_reproduces_orthonormal_axes:
  assumes "length_vector x = 1" and "length_vector y = 1" and "length_vector z = 1"
    and "dot_vectors x y = 0" and "dot_vectors y z = 0" and "dot_vectors x z = 0"
    and "z = cross_vectors x y"
  shows "\<exists>F. Frame org x y = Inr F \<and> point F = org \<and> xaxis F = x \<and> yaxis F = y \<and> zaxis F = z"
proof -
  have d: "dot_vectors x x = 1" "dot_vectors y y = 1"
    using assms by (simp_all add: length_vector_one_iff)
  have uz: "unitize (cross_vectors x y) = Inr (cross_vectors x y)"
    using assms by (intro unitize_of_unit) simp
  have bk: "cross_vectors (cross_vectors x y) x = y"
    using d assms(4) by (rule orthonormal_back_cross)
  have "Frame org x y = Inr \<lparr>point = org, xaxis = x, yaxis = y\<rparr>"
    using assms(1,2)
    by (simp add: Frame_def point_setter_def xaxis_setter_def yaxis_setter_def
        unitize_of_unit uz bk blank_frame_def)
  then show ?thesis
    using assms(7) by (simp add: zaxis_def normal_def)
qed

text \<open>An instance: the axes (0, 1, 0), (0, 0, 1), (1, 0, 0) at the origin (7, 8, 9).\<close>

theorem Frame_reproduces_orthonormal_axes_witness:
  "length_vector (0, 1, 0) = 1 \<and> length_vector (0, 0, 1) = 1 \<and> length_vector (1, 0, 0) = 1 \<and>
   dot_vectors (0, 1, 0) (0, 0, 1) = 0 \<and> dot_vectors (0, 0, 1) (1, 0, 0) = 0 \<and>
   dot_vectors (0, 1, 0) (1, 0, 0) = 0 \<and> (1, 0, 0) = cross_vectors (0, 1, 0) (0, 0, 1) \<and>
   (\<exists>F. Frame (7, 8, 9) (0, 1, 0) (0, 0, 1) = Inr F \<and> point F = (7, 8, 9) \<and>
        xaxis F = (0, 1, 0) \<and> yaxis F = (0, 0, 1) \<and> zaxis F = (1, 0, 0))"
proof -
  have h1: "length_vector (0, 1, 0) = 1" by (simp add: length_vector_def)
  have h2: "length_vector (0, 0, 1) = 1" by (simp add: length_vector_def)
  have h3: "length_vector (1, 0, 0) = 1" by (simp add: length_vector_def)
  have h4: "dot_vectors (0, 1, 0) (0, 0, 1) = 0" by simp
  have h5: "dot_vectors (0, 0, 1) (1, 0, 0) = 0" by simp
  have h6: "dot_vectors (0, 1, 0) (1, 0, 0) = 0" by simp
  have h7: "(1, 0, 0) = cross_vectors (0, 1, 0) (0, 0, 1)" by simp
  from Frame_reproduces_orthonormal_axes [OF h1 h2 h3 h4 h5 h6 h7, of "(7, 8, 9)"]
    h1 h2 h3 h4 h5 h6 h7
  show ?thesis by blast
qed

text \<open>
  C1, as the code has it. The constructor, the y-axis setter on a frame with a unit
  x-axis and \<open>transform\<close> leave a frame that satisfies the invariant whenever they
  return, and the constructor returns for every non-zero x-axis and every y-axis not
  parallel to it. After the x-axis setter the stored x-axis has unit length.
\<close>

theorem orthonormal_invariant_established:
  "(Frame p x y = Inr F \<longrightarrow> frame_invariant F) \<and>
   (x \<noteq> (0, 0, 0) \<and> cross_vectors x y \<noteq> (0, 0, 0) \<longrightarrow> (\<exists>G. Frame p x y = Inr G)) \<and>
   (length_vector (xaxis F) = 1 \<and> yaxis_setter F v = Inr F' \<longrightarrow> frame_invariant F') \<and>
   (transform ops F T = (F', None) \<longrightarrow> frame_invariant F') \<and>
   (xaxis_setter F v = Inr F' \<longrightarrow> length_vector (xaxis F') = 1)"
proof (intro conjI impI)
  assume "Frame p x y = Inr F"
  then show "frame_invariant F" using Frame_result by blast
next
  assume "x \<noteq> (0, 0, 0) \<and> cross_vectors x y \<noteq> (0, 0, 0)"
  then show "\<exists>G. Frame p x y = Inr G" using Frame_defined by blast
next
  assume a: "length_vector (xaxis F) = 1 \<and> yaxis_setter F v = Inr F'"
  then have x: "dot_vectors (xaxis F) (xaxis F) = 1" by (simp add: length_vector_one_iff)
  from a have "yaxis_setter F v = Inr F'" by simp
  from yaxis_setter_result [OF x this] x show "frame_invariant F'"
    by (intro orthonormal_pair_invariant) auto
next
  assume "transform ops F T = (F', None)"
  then show "frame_invariant F'" by (rule transform_result)
next
  assume a: "xaxis_setter F v = Inr F'"
  then obtain u where u: "unitize v = Inr u" and F': "F' = F\<lparr>xaxis := u\<rparr>"
    by (auto simp: xaxis_setter_def split: sum.splits)
  show "length_vector (xaxis F') = 1"
    using unitize_unit [OF u] by (simp add: F' length_vector_one_iff)
qed

text \<open>
  Instances: the constructor on the axes (3, 4, 0) and (0, 1, 0); the y-axis setter on a
  frame with the axes (1, 0, 0) and (0, 0, 1); \<open>transform\<close> with a translation, for
  an implementation of the four operations on triples (origin, x-axis, y-axis); the
  x-axis setter on the world XY frame.
\<close>

theorem orthonormal_invariant_established_witness:
  "Frame (1, 2, 3) (3, 4, 0) (0, 1, 0) =
     Inr \<lparr>point = (1, 2, 3), xaxis = (3 / 5, 4 / 5, 0), yaxis = (- 4 / 5, 3 / 5, 0)\<rparr> \<and>
   frame_invariant \<lparr>point = (1, 2, 3), xaxis = (3 / 5, 4 / 5, 0), yaxis = (- 4 / 5, 3 / 5, 0)\<rparr> \<and>
   length_vector (xaxis \<lparr>point = (0, 0, 0), xaxis = (1, 0, 0), yaxis = (0, 0, 1)\<rparr>) = 1 \<and>
   yaxis_setter \<lparr>point = (0, 0, 0), xaxis = (1, 0, 0), yaxis = (0, 0, 1)\<rparr> (0, 2, 0) =
     Inr \<lparr>point = (0, 0, 0), xaxis = (1, 0, 0), yaxis = (0, 1, 0)\<rparr> \<and>
   frame_invariant \<lparr>point = (0, 0, 0), xaxis = (1, 0, 0), yaxis = (0, 1, 0)\<rparr> \<and>
   transform
     \<lparr>from_frame = (\<lambda>F. (point F, xaxis F, yaxis F)),
      compose = (\<lambda>(t, a, b) (c, x, y). (add_vectors c t, x, y)),
      translation = (\<lambda>(c, x, y). Inr c),
      basis_vectors = (\<lambda>(c, x, y). Inr (x, y))\<rparr>
     \<lparr>point = (0, 0, 0), xaxis = (1, 0, 0), yaxis = (0, 1, 0)\<rparr>
     ((1, 2, 3), (1, 0, 0), (0, 1, 0)) =
     (\<lparr>point = (1, 2, 3), xaxis = (1, 0, 0), yaxis = (0, 1, 0)\<rparr>, None) \<and>
   frame_invariant \<lparr>point = (1, 2, 3), xaxis = (1, 0, 0), yaxis = (0, 1, 0)\<rparr> \<and>
   xaxis_setter \<lparr>point = (0, 0, 0), xaxis = (1, 0, 0), yaxis = (0, 1, 0)\<rparr> (3, 4, 0) =
     Inr \<lparr>point = (0, 0, 0), xaxis = (3 / 5, 4 / 5, 0), yaxis = (0, 1, 0)\<rparr> \<and>
   length_vector (3 / 5, 4 / 5, 0) = 1"
proof -
  let ?W = "\<lparr>point = (0, 0, 0), xaxis = (1, 0, 0), yaxis = (0, 1, 0)\<rparr>"
  let ?Z = "\<lparr>point = (0, 0, 0), xaxis = (1, 0, 0), yaxis = (0, 0, 1)\<rparr>"
  let ?G = "\<lparr>point = (1, 2, 3), xaxis = (3 / 5, 4 / 5, 0), yaxis = (- 4 / 5, 3 / 5, 0)\<rparr>"
  let ?H = "\<lparr>point = (1, 2, 3), xaxis = (1, 0, 0), yaxis = (0, 1, 0)\<rparr>"
  let ?X = "\<lparr>point = (0, 0, 0), xaxis = (3 / 5, 4 / 5, 0), yaxis = (0, 1, 0)\<rparr>"
  let ?ops = "\<lparr>from_frame = (\<lambda>F. (point F, xaxis F, yaxis F)),
      compose = (\<lambda>(t, a, b) (c, x, y). (add_vectors c t, x, y)),
      translation = (\<lambda>(c, x, y). Inr c),
      basis_vectors = (\<lambda>(c, x, y). Inr (x, y))\<rparr>"
  have l1: "length_vector (1, 0, 0) = 1" by (simp add: length_vector_axis1)
  have l2: "length_vector (0, 1, 0) = 1" by (simp add: length_vector_axis2)
  have l2': "length_vector (0, 2, 0) = 2" by (simp add: length_vector_axis2)
  have l3: "length_vector (0, 0, 1) = 1" by (simp add: length_vector_axis3)
  have l4: "length_vector (0, 0, 3 / 5) = 3 / 5" by (simp add: length_vector_axis3)
  have a: "Frame (1, 2, 3) (3, 4, 0) (0, 1, 0) = Inr ?G"
    by (simp add: Frame_def point_setter_def xaxis_setter_def yaxis_setter_def blank_frame_def
        unitize_def frame_eq_35 l2 l4)
  have b: "yaxis_setter ?Z (0, 2, 0) = Inr ?W"
    by (simp add: yaxis_setter_def unitize_def l2' l3)
  have c: "transform ?ops ?W ((1, 2, 3), (1, 0, 0), (0, 1, 0)) = (?H, None)"
    by (simp add: transform_def point_setter_def xaxis_setter_def yaxis_setter_def
        unitize_def l1 l2 l3)
  have d: "xaxis_setter ?W (3, 4, 0) = Inr ?X"
    by (simp add: xaxis_setter_def unitize_def frame_eq_35)
  have lz: "length_vector (xaxis ?Z) = 1" by (simp add: l1)
  note thm1 = orthonormal_invariant_established
    [where p = "(1, 2, 3)" and x = "(3, 4, 0)" and y = "(0, 1, 0)" and F = ?G]
  note thm2 = orthonormal_invariant_established
    [where F = ?Z and v = "(0, 2, 0)" and F' = ?W]
  note thm3 = orthonormal_invariant_established
    [where F = ?W and F' = ?H and ops = ?ops and T = "((1, 2, 3), (1, 0, 0), (0, 1, 0))"]
  note thm4 = orthonormal_invariant_established
    [where F = ?W and v = "(3, 4, 0)" and F' = ?X]
  have i1: "frame_invariant ?G"
    by (rule mp [OF thm1 [THEN conjunct1] a])
  have i2: "frame_invariant ?W"
    by (rule mp [OF thm2 [THEN conjunct2, THEN conjunct2, THEN conjunct1] conjI [OF lz b]])
  have i3: "frame_invariant ?H"
    by (rule mp [OF thm3 [THEN conjunct2, THEN conjunct2, THEN conjunct2, THEN conjunct1] c])
  have "length_vector (xaxis ?X) = 1"
    by (rule mp [OF thm4 [THEN conjunct2, THEN conjunct2, THEN conjunct2, THEN conjunct2] d])
  then have i4: "length_vector (3 / 5, 4 / 5, 0) = 1" by simp
  from a i1 lz b i2 c i3 d i4 show ?thesis by (intro conjI)
qed

text \<open>
  C1 as stated fails for the x-axis setter: on the world XY frame, assigning (3, 4, 0)
  to the x-axis gives the axes (3/5, 4/5, 0) and (0, 1, 0), which are not perpendicular.
\<close>

theorem xaxis_setter_breaks_orthogonality:
  "worldXY = Inr \<lparr>point = (0, 0, 0), xaxis = (1, 0, 0), yaxis = (0, 1, 0)\<rparr> \<and>
   xaxis_setter \<lparr>point = (0, 0, 0), xaxis = (1, 0, 0), yaxis = (0, 1, 0)\<rparr> (3, 4, 0) =
     Inr \<lparr>point = (0, 0, 0), xaxis = (3 / 5, 4 / 5, 0), yaxis = (0, 1, 0)\<rparr> \<and>
   \<not> frame_invariant \<lparr>point = (0, 0, 0), xaxis = (3 / 5, 4 / 5, 0), yaxis = (0, 1, 0)\<rparr>"
proof (intro conjI)
  have l1: "length_vector (1, 0, 0) = 1" by (simp add: length_vector_def)
  have l2: "length_vector (0, 1, 0) = 1" by (simp add: length_vector_def)
  have l3: "length_vector (0, 0, 1) = 1" by (simp add: length_vector_def)
  show "worldXY = Inr \<lparr>point = (0, 0, 0), xaxis = (1, 0, 0), yaxis = (0, 1, 0)\<rparr>"
    by (simp add: worldXY_def Frame_def point_setter_def xaxis_setter_def yaxis_setter_def blank_frame_def
      unitize_def l1 l2 l3)
  show "xaxis_setter \<lparr>point = (0, 0, 0), xaxis = (1, 0, 0), yaxis = (0, 1, 0)\<rparr> (3, 4, 0) =
     Inr \<lparr>point = (0, 0, 0), xaxis = (3 / 5, 4 / 5, 0), yaxis = (0, 1, 0)\<rparr>"
    by (simp add: xaxis_setter_def unitize_def frame_eq_35)
  show "\<not> frame_invariant \<lparr>point = (0, 0, 0), xaxis = (3 / 5, 4 / 5, 0), yaxis = (0, 1, 0)\<rparr>"
    by (simp add: frame_invariant_def)
qed

text \<open>
  C2, as the code has it. Re-expressing a point in the local coordinates of a frame
  that satisfies the invariant and then in global coordinates returns the point, for
  every matrix inverse that returns an inverse of the frame's rotation matrix.
\<close>

theorem local_global_round_trip:
  assumes inv: "frame_invariant F"
    and R: "matrix_from_basis_vectors (xaxis F) (yaxis F) = Inr R"
    and call: "inverse_fn R = Inr Ti"
    and spec: "is_inverse Ti R"
  shows "\<exists>q. represent_point_in_local_coordinates inverse_fn F p = Inr q \<and>
             represent_point_in_global_coordinates F q = Inr p"
proof -
  from spec have m4: "is_mat4 Ti" by (simp add: is_inverse_def)
  then obtain a11 a12 a13 a14 a21 a22 a23 a24 a31 a32 a33 a34 a41 a42 a43 a44 where
    Ti: "Ti = [[a11, a12, a13, a14], [a21, a22, a23, a24], [a31, a32, a33, a34], [a41, a42, a43, a44]]"
    by (rule mat4_exhaust)
  obtain x1 x2 x3 where x: "xaxis F = (x1, x2, x3)" by (cases "xaxis F")
  obtain y1 y2 y3 where y: "yaxis F = (y1, y2, y3)" by (cases "yaxis F")
  obtain z1 z2 z3 where z: "zaxis F = (z1, z2, z3)" by (cases "zaxis F")
  obtain o1 o2 o3 where o: "point F = (o1, o2, o3)" by (cases "point F")
  obtain p1 p2 p3 where p: "p = (p1, p2, p3)" by (cases p)
  have zz: "zaxis (F\<lparr>point := (0, 0, 0)\<rparr>) = zaxis F"
    by (simp add: zaxis_def normal_def)
  from R matrix_from_basis_vectors_invariant [OF inv]
  have Rv: "R = [[x1, y1, z1, 0], [x2, y2, z2, 0], [x3, y3, z3, 0], [0, 0, 0, 1]]"
    by (simp add: matrix_from_frame_def x y zz z)
  from spec have "multiply_matrices R Ti = identity_matrix4"
    by (simp add: is_inverse_def)
  then have eqs:
    "x1 * a11 + y1 * a21 + z1 * a31 = 1" "x1 * a12 + y1 * a22 + z1 * a32 = 0"
    "x1 * a13 + y1 * a23 + z1 * a33 = 0" "x1 * a14 + y1 * a24 + z1 * a34 = 0"
    "x2 * a11 + y2 * a21 + z2 * a31 = 0" "x2 * a12 + y2 * a22 + z2 * a32 = 1"
    "x2 * a13 + y2 * a23 + z2 * a33 = 0" "x2 * a14 + y2 * a24 + z2 * a34 = 0"
    "x3 * a11 + y3 * a21 + z3 * a31 = 0" "x3 * a12 + y3 * a22 + z3 * a32 = 0"
    "x3 * a13 + y3 * a23 + z3 * a33 = 1" "x3 * a14 + y3 * a24 + z3 * a34 = 0"
    by (simp_all add: multiply_matrices_def identity_matrix4_def Rv Ti upt4)
  let ?q = "(a11 * (p1 - o1) + a12 * (p2 - o2) + a13 * (p3 - o3) + a14,
             a21 * (p1 - o1) + a22 * (p2 - o2) + a23 * (p3 - o3) + a24,
             a31 * (p1 - o1) + a32 * (p2 - o2) + a33 * (p3 - o3) + a34)"
  have loc: "represent_point_in_local_coordinates inverse_fn F p = Inr ?q"
    using m4 by (simp add: represent_point_in_local_coordinates_def R call transform_point_def
        apply_row_def o p Ti)
  have g4: "is_mat4 (matrix_from_frame F)"
    by (simp add: matrix_from_frame_def is_mat4_def x y z o)
  have e1: "x1 * (a11 * (p1 - o1) + a12 * (p2 - o2) + a13 * (p3 - o3) + a14) +
            y1 * (a21 * (p1 - o1) + a22 * (p2 - o2) + a23 * (p3 - o3) + a24) +
            z1 * (a31 * (p1 - o1) + a32 * (p2 - o2) + a33 * (p3 - o3) + a34) + o1 = p1"
  proof -
    have "x1 * (a11 * (p1 - o1) + a12 * (p2 - o2) + a13 * (p3 - o3) + a14) +
            y1 * (a21 * (p1 - o1) + a22 * (p2 - o2) + a23 * (p3 - o3) + a24) +
            z1 * (a31 * (p1 - o1) + a32 * (p2 - o2) + a33 * (p3 - o3) + a34) =
          (x1 * a11 + y1 * a21 + z1 * a31) * (p1 - o1) +
          (x1 * a12 + y1 * a22 + z1 * a32) * (p2 - o2) +
          (x1 * a13 + y1 * a23 + z1 * a33) * (p3 - o3) +
          (x1 * a14 + y1 * a24 + z1 * a34)"
      by (simp add: algebra_simps)
    then show ?thesis by (simp add: eqs)
  qed
  have e2: "x2 * (a11 * (p1 - o1) + a12 * (p2 - o2) + a13 * (p3 - o3) + a14) +
            y2 * (a21 * (p1 - o1) + a22 * (p2 - o2) + a23 * (p3 - o3) + a24) +
            z2 * (a31 * (p1 - o1) + a32 * (p2 - o2) + a33 * (p3 - o3) + a34) + o2 = p2"
  proof -
    have "x2 * (a11 * (p1 - o1) + a12 * (p2 - o2) + a13 * (p3 - o3) + a14) +
            y2 * (a21 * (p1 - o1) + a22 * (p2 - o2) + a23 * (p3 - o3) + a24) +
            z2 * (a31 * (p1 - o1) + a32 * (p2 - o2) + a33 * (p3 - o3) + a34) =
          (x2 * a11 + y2 * a21 + z2 * a31) * (p1 - o1) +
          (x2 * a12 + y2 * a22 + z2 * a32) * (p2 - o2) +
          (x2 * a13 + y2 * a23 + z2 * a33) * (p3 - o3) +
          (x2 * a14 + y2 * a24 + z2 * a34)"
      by (simp add: algebra_simps)
    then show ?thesis by (simp add: eqs)
  qed
  have e3: "x3 * (a11 * (p1 - o1) + a12 * (p2 - o2) + a13 * (p3 - o3) + a14) +
            y3 * (a21 * (p1 - o1) + a22 * (p2 - o2) + a23 * (p3 - o3) + a24) +
            z3 * (a31 * (p1 - o1) + a32 * (p2 - o2) + a33 * (p3 - o3) + a34) + o3 = p3"
  proof -
    have "x3 * (a11 * (p1 - o1) + a12 * (p2 - o2) + a13 * (p3 - o3) + a14) +
            y3 * (a21 * (p1 - o1) + a22 * (p2 - o2) + a23 * (p3 - o3) + a24) +
            z3 * (a31 * (p1 - o1) + a32 * (p2 - o2) + a33 * (p3 - o3) + a34) =
          (x3 * a11 + y3 * a21 + z3 * a31) * (p1 - o1) +
          (x3 * a12 + y3 * a22 + z3 * a32) * (p2 - o2) +
          (x3 * a13 + y3 * a23 + z3 * a33) * (p3 - o3) +
          (x3 * a14 + y3 * a24 + z3 * a34)"
      by (simp add: algebra_simps)
    then show ?thesis by (simp add: eqs)
  qed
  have glob: "represent_point_in_global_coordinates F ?q = Inr p"
    using g4 e1 e2 e3
    by (simp add: represent_point_in_global_coordinates_def transform_point_def apply_row_def
        matrix_from_frame_def x y z o p)
  from loc glob show ?thesis by blast
qed

text \<open>
  An instance: the frame at (1, 2, 3) with the axes (0, 1, 0) and (-1, 0, 0), the
  transpose as inverse of its rotation matrix, and the point (5, 7, 9), whose local
  coordinates are (5, -4, 6).
\<close>

theorem local_global_round_trip_witness:
  "frame_invariant \<lparr>point = (1, 2, 3), xaxis = (0, 1, 0), yaxis = (- 1, 0, 0)\<rparr> \<and>
   matrix_from_basis_vectors (0, 1, 0) (- 1, 0, 0) =
     Inr [[0, - 1, 0, 0], [1, 0, 0, 0], [0, 0, 1, 0], [0, 0, 0, 1]] \<and>
   is_inverse [[0, 1, 0, 0], [- 1, 0, 0, 0], [0, 0, 1, 0], [0, 0, 0, 1]]
     [[0, - 1, 0, 0], [1, 0, 0, 0], [0, 0, 1, 0], [0, 0, 0, 1]] \<and>
   represent_point_in_local_coordinates (\<lambda>M. Inr (transpose M))
     \<lparr>point = (1, 2, 3), xaxis = (0, 1, 0), yaxis = (- 1, 0, 0)\<rparr> (5, 7, 9) = Inr (5, - 4, 6) \<and>
   represent_point_in_global_coordinates
     \<lparr>point = (1, 2, 3), xaxis = (0, 1, 0), yaxis = (- 1, 0, 0)\<rparr> (5, - 4, 6) = Inr (5, 7, 9)"
proof -
  let ?F = "\<lparr>point = (1, 2, 3), xaxis = (0, 1, 0), yaxis = (- 1, 0, 0)\<rparr>"
  let ?R = "[[0, - 1, 0, 0], [1, 0, 0, 0], [0, 0, 1, 0], [0, 0, 0, 1 :: real]]"
  let ?Ti = "[[0, 1, 0, 0], [- 1, 0, 0, 0], [0, 0, 1, 0], [0, 0, 0, 1 :: real]]"
  have l1: "length_vector (0, 1, 0) = 1" by (simp add: length_vector_axis2)
  have l2: "length_vector (- 1, 0, 0) = 1" by (simp add: length_vector_def)
  have l3: "length_vector (0, 0, 1) = 1" by (simp add: length_vector_axis3)
  have inv: "frame_invariant ?F"
    by (simp add: frame_invariant_def zaxis_def normal_def l1 l2 l3)
  have R: "matrix_from_basis_vectors (xaxis ?F) (yaxis ?F) = Inr ?R"
    by (simp add: matrix_from_basis_vectors_def unitize_def l1 l2)
  have tr: "transpose ?R = ?Ti"
    by simp
  have call: "(Inr (transpose ?R) :: error + matrix) = Inr ?Ti"
    by (simp only: tr)
  have spec: "is_inverse ?Ti ?R"
    by (simp add: is_inverse_def is_mat4_def multiply_matrices_def identity_matrix4_def upt4)
  note rt = local_global_round_trip
    [where inverse_fn = "\<lambda>M. Inr (transpose M)" and F = ?F and R = ?R and Ti = ?Ti
       and p = "(5, 7, 9)"]
  from rt [OF inv R call spec]
  obtain q where q: "represent_point_in_local_coordinates (\<lambda>M. Inr (transpose M)) ?F (5, 7, 9) = Inr q"
    and g: "represent_point_in_global_coordinates ?F q = Inr (5, 7, 9)" by blast
  have "represent_point_in_local_coordinates (\<lambda>M. Inr (transpose M)) ?F (5, 7, 9) = Inr (5, - 4, 6)"
    using R tr
    by (simp add: represent_point_in_local_coordinates_def transform_point_def is_mat4_def
        apply_row_def)
  with q g have "represent_point_in_global_coordinates ?F (5, - 4, 6) = Inr (5, 7, 9)"
    by simp
  with inv R spec \<open>represent_point_in_local_coordinates (\<lambda>M. Inr (transpose M)) ?F (5, 7, 9) = Inr (5, - 4, 6)\<close>
  show ?thesis by simp
qed

text \<open>
  C2 as stated, for every frame, fails on a frame whose axes are not perpendicular: the
  local coordinates are taken with the re-orthonormalized axes, the global coordinates
  with the stored ones. After \<open>F.xaxis = (3, 4, 0)\<close> on the world XY frame, with the
  inverse of the frame's rotation matrix, the point (1, 0, 0) comes back as
  (9/25, -64/75, 0).
\<close>

theorem round_trip_fails_off_invariant:
  "xaxis_setter \<lparr>point = (0, 0, 0), xaxis = (1, 0, 0), yaxis = (0, 1, 0)\<rparr> (3, 4, 0) =
     Inr \<lparr>point = (0, 0, 0), xaxis = (3 / 5, 4 / 5, 0), yaxis = (0, 1, 0)\<rparr> \<and>
   matrix_from_basis_vectors (3 / 5, 4 / 5, 0) (0, 1, 0) =
     Inr [[3 / 5, - 12 / 25, 0, 0], [4 / 5, 9 / 25, 0, 0], [0, 0, 3 / 5, 0], [0, 0, 0, 1]] \<and>
   is_inverse [[3 / 5, 4 / 5, 0, 0], [- 4 / 3, 1, 0, 0], [0, 0, 5 / 3, 0], [0, 0, 0, 1]]
     [[3 / 5, - 12 / 25, 0, 0], [4 / 5, 9 / 25, 0, 0], [0, 0, 3 / 5, 0], [0, 0, 0, 1]] \<and>
   represent_point_in_local_coordinates
     (\<lambda>M. Inr [[3 / 5, 4 / 5, 0, 0], [- 4 / 3, 1, 0, 0], [0, 0, 5 / 3, 0], [0, 0, 0, 1]])
     \<lparr>point = (0, 0, 0), xaxis = (3 / 5, 4 / 5, 0), yaxis = (0, 1, 0)\<rparr> (1, 0, 0) =
     Inr (3 / 5, - 4 / 3, 0) \<and>
   represent_point_in_global_coordinates
     \<lparr>point = (0, 0, 0), xaxis = (3 / 5, 4 / 5, 0), yaxis = (0, 1, 0)\<rparr> (3 / 5, - 4 / 3, 0) =
     Inr (9 / 25, - 64 / 75, 0)"
proof (intro conjI)
  have lx: "length_vector (3 / 5, 4 / 5, 0) = 1" by (simp add: length_vector_def)
  have ly: "length_vector (0, 1, 0) = 1" by (simp add: length_vector_axis2)
  show "xaxis_setter \<lparr>point = (0, 0, 0), xaxis = (1, 0, 0), yaxis = (0, 1, 0)\<rparr> (3, 4, 0) =
     Inr \<lparr>point = (0, 0, 0), xaxis = (3 / 5, 4 / 5, 0), yaxis = (0, 1, 0)\<rparr>"
    by (simp add: xaxis_setter_def unitize_def frame_eq_35)
  show R: "matrix_from_basis_vectors (3 / 5, 4 / 5, 0) (0, 1, 0) =
     Inr [[3 / 5, - 12 / 25, 0, 0], [4 / 5, 9 / 25, 0, 0], [0, 0, 3 / 5, 0], [0, 0, 0, 1]]"
    by (simp add: matrix_from_basis_vectors_def unitize_def lx ly)
  show "is_inverse [[3 / 5, 4 / 5, 0, 0], [- 4 / 3, 1, 0, 0], [0, 0, 5 / 3, 0], [0, 0, 0, 1]]
     [[3 / 5, - 12 / 25, 0, 0], [4 / 5, 9 / 25, 0, 0], [0, 0, 3 / 5, 0], [0, 0, 0, 1]]"
    by (simp add: is_inverse_def is_mat4_def multiply_matrices_def identity_matrix4_def upt4)
  show "represent_point_in_local_coordinates
     (\<lambda>M. Inr [[3 / 5, 4 / 5, 0, 0], [- 4 / 3, 1, 0, 0], [0, 0, 5 / 3, 0], [0, 0, 0, 1]])
     \<lparr>point = (0, 0, 0), xaxis = (3 / 5, 4 / 5, 0), yaxis = (0, 1, 0)\<rparr> (1, 0, 0) =
     Inr (3 / 5, - 4 / 3, 0)"
    using R by (simp add: represent_point_in_local_coordinates_def transform_point_def
        is_mat4_def apply_row_def)
  show "represent_point_in_global_coordinates
     \<lparr>point = (0, 0, 0), xaxis = (3 / 5, 4 / 5, 0), yaxis = (0, 1, 0)\<rparr> (3 / 5, - 4 / 3, 0) =
     Inr (9 / 25, - 64 / 75, 0)"
    by (simp add: represent_point_in_global_coordinates_def transform_point_def
        matrix_from_frame_def zaxis_def normal_def is_mat4_def apply_row_def)
qed

text \<open>
  C9, as the code has it. \<open>F[0] = v\<close> stores the origin and returns. \<open>F[1] = v\<close>
  stores the unitized vector and returns when v is not the zero vector; for the zero
  vector the error of unitize leaves the call and the frame is unchanged. \<open>F[2] = v\<close>
  stores the y-axis that the setter computes and then raises KeyError when v is not
  parallel to the stored x-axis (and not zero); otherwise the error of unitize leaves
  the call and the frame is unchanged. Every other key raises KeyError and leaves the
  frame unchanged.
\<close>

theorem setitem_behaviour:
  "setitem F 0 v = (F\<lparr>point := v\<rparr>, None) \<and>
   (v \<noteq> (0, 0, 0) \<longrightarrow>
      setitem F 1 v = (F\<lparr>xaxis := scale_vector v (1 / length_vector v)\<rparr>, None)) \<and>
   (v = (0, 0, 0) \<longrightarrow> setitem F 1 v = (F, Some DegenerateInputError)) \<and>
   (cross_vectors (xaxis F) v \<noteq> (0, 0, 0) \<longrightarrow>
      (\<exists>F'. yaxis_setter F v = Inr F' \<and> setitem F 2 v = (F', Some KeyError) \<and>
            xaxis F' = xaxis F \<and> point F' = point F)) \<and>
   (cross_vectors (xaxis F) v = (0, 0, 0) \<longrightarrow> setitem F 2 v = (F, Some DegenerateInputError)) \<and>
   (key \<noteq> 0 \<and> key \<noteq> 1 \<and> key \<noteq> 2 \<longrightarrow> setitem F key v = (F, Some KeyError))"
proof (intro conjI impI)
  show "setitem F 0 v = (F\<lparr>point := v\<rparr>, None)"
    by (simp add: setitem_def point_setter_def)
next
  assume "v \<noteq> (0, 0, 0)"
  then show "setitem F 1 v = (F\<lparr>xaxis := scale_vector v (1 / length_vector v)\<rparr>, None)"
    by (simp add: setitem_def xaxis_setter_def unitize_defined)
next
  assume "v = (0, 0, 0)"
  then show "setitem F 1 v = (F, Some DegenerateInputError)"
    by (simp add: setitem_def xaxis_setter_def unitize_def length_vector_def)
next
  assume "cross_vectors (xaxis F) v \<noteq> (0, 0, 0)"
  then obtain F' where F': "yaxis_setter F v = Inr F'"
    using yaxis_setter_defined by blast
  then have "xaxis F' = xaxis F \<and> point F' = point F"
    by (auto simp: yaxis_setter_def split: sum.splits)
  with F' show "\<exists>F'. yaxis_setter F v = Inr F' \<and> setitem F 2 v = (F', Some KeyError) \<and>
            xaxis F' = xaxis F \<and> point F' = point F"
    by (simp add: setitem_def)
next
  assume z: "cross_vectors (xaxis F) v = (0, 0, 0)"
  have "yaxis_setter F v = Inl DegenerateInputError"
  proof (cases "unitize v")
    case (Inl e)
    then show ?thesis by (auto simp: yaxis_setter_def unitize_def split: if_splits)
  next
    case (Inr y)
    then have "y = scale_vector v (1 / length_vector v)"
      by (auto simp: unitize_def split: if_splits)
    then have "cross_vectors (xaxis F) y = (0, 0, 0)"
      using z by (cases "xaxis F", cases v) (auto simp: field_simps)
    then have "unitize (cross_vectors (xaxis F) y) = Inl DegenerateInputError"
      by (simp add: unitize_def length_vector_zero_iff)
    then show ?thesis
      by (simp add: yaxis_setter_def Inr)
  qed
  then show "setitem F 2 v = (F, Some DegenerateInputError)"
    by (simp add: setitem_def)
next
  assume "key \<noteq> 0 \<and> key \<noteq> 1 \<and> key \<noteq> 2"
  then show "setitem F key v = (F, Some KeyError)"
    by (simp add: setitem_def)
qed

text \<open>
  Instances on the world XY frame and on the frame with the axes (1, 0, 0), (0, 0, 1).
\<close>

theorem setitem_behaviour_witness:
  "setitem \<lparr>point = (0, 0, 0), xaxis = (1, 0, 0), yaxis = (0, 1, 0)\<rparr> 1 (3, 4, 0) =
     (\<lparr>point = (0, 0, 0), xaxis = (3 / 5, 4 / 5, 0), yaxis = (0, 1, 0)\<rparr>, None) \<and>
   setitem \<lparr>point = (0, 0, 0), xaxis = (1, 0, 0), yaxis = (0, 1, 0)\<rparr> 1 (0, 0, 0) =
     (\<lparr>point = (0, 0, 0), xaxis = (1, 0, 0), yaxis = (0, 1, 0)\<rparr>, Some DegenerateInputError) \<and>
   setitem \<lparr>point = (0, 0, 0), xaxis = (1, 0, 0), yaxis = (0, 0, 1)\<rparr> 2 (0, 2, 0) =
     (\<lparr>point = (0, 0, 0), xaxis = (1, 0, 0), yaxis = (0, 1, 0)\<rparr>, Some KeyError) \<and>
   setitem \<lparr>point = (0, 0, 0), xaxis = (1, 0, 0), yaxis = (0, 1, 0)\<rparr> 2 (2, 0, 0) =
     (\<lparr>point = (0, 0, 0), xaxis = (1, 0, 0), yaxis = (0, 1, 0)\<rparr>, Some DegenerateInputError) \<and>
   setitem \<lparr>point = (0, 0, 0), xaxis = (1, 0, 0), yaxis = (0, 1, 0)\<rparr> 3 (1, 1, 1) =
     (\<lparr>point = (0, 0, 0), xaxis = (1, 0, 0), yaxis = (0, 1, 0)\<rparr>, Some KeyError)"
proof -
  let ?W = "\<lparr>point = (0, 0, 0), xaxis = (1, 0, 0), yaxis = (0, 1, 0)\<rparr>"
  let ?Z = "\<lparr>point = (0, 0, 0), xaxis = (1, 0, 0), yaxis = (0, 0, 1)\<rparr>"
  have l2: "length_vector (0, 2, 0) = 2" by (simp add: length_vector_axis2)
  have l3: "length_vector (0, 0, 1) = 1" by (simp add: length_vector_axis3)
  note a = setitem_behaviour [where F = ?W and v = "(3, 4, 0)", THEN conjunct2, THEN conjunct1]
  note b = setitem_behaviour [where F = ?W and v = "(0, 0, 0)", THEN conjunct2, THEN conjunct2,
      THEN conjunct1]
  note c = setitem_behaviour [where F = ?Z and v = "(0, 2, 0)", THEN conjunct2, THEN conjunct2,
      THEN conjunct2, THEN conjunct1]
  note d = setitem_behaviour [where F = ?W and v = "(2, 0, 0)", THEN conjunct2, THEN conjunct2,
      THEN conjunct2, THEN conjunct2, THEN conjunct1]
  note e = setitem_behaviour [where F = ?W and v = "(1, 1, 1)" and key = 3, THEN conjunct2,
      THEN conjunct2, THEN conjunct2, THEN conjunct2, THEN conjunct2]
  have 1: "setitem ?W 1 (3, 4, 0) =
     (\<lparr>point = (0, 0, 0), xaxis = (3 / 5, 4 / 5, 0), yaxis = (0, 1, 0)\<rparr>, None)"
    using a by (simp add: frame_eq_35)
  have 2: "setitem ?W 1 (0, 0, 0) = (?W, Some DegenerateInputError)"
    using b by simp
  have ys: "yaxis_setter ?Z (0, 2, 0) = Inr ?W"
    by (simp add: yaxis_setter_def unitize_def l2 l3)
  have 3: "setitem ?Z 2 (0, 2, 0) = (?W, Some KeyError)"
    using c ys by simp
  have 4: "setitem ?W 2 (2, 0, 0) = (?W, Some DegenerateInputError)"
    using d by simp
  have 5: "setitem ?W 3 (1, 1, 1) = (?W, Some KeyError)"
    using e by simp
  from 1 2 3 4 5 show ?thesis by (intro conjI)
qed

text \<open>
  C9 as stated fails for a value that cannot be unitized: on the world XY frame
  \<open>F[1] = (0, 0, 0)\<close> does not return normally, and \<open>F[2] = (2, 0, 0)\<close>, parallel
  to the x-axis, raises the error of unitize and not KeyError, with the y-axis unchanged.
\<close>

theorem setitem_zero_vector_raises:
  "setitem \<lparr>point = (0, 0, 0), xaxis = (1, 0, 0), yaxis = (0, 1, 0)\<rparr> 1 (0, 0, 0) =
     (\<lparr>point = (0, 0, 0), xaxis = (1, 0, 0), yaxis = (0, 1, 0)\<rparr>, Some DegenerateInputError) \<and>
   setitem \<lparr>point = (0, 0, 0), xaxis = (1, 0, 0), yaxis = (0, 1, 0)\<rparr> 2 (2, 0, 0) =
     (\<lparr>point = (0, 0, 0), xaxis = (1, 0, 0), yaxis = (0, 1, 0)\<rparr>, Some DegenerateInputError)"
proof -
  have l: "length_vector (2, 0, 0) = 2" by (simp add: length_vector_axis1)
  show ?thesis
    by (simp add: setitem_def xaxis_setter_def yaxis_setter_def unitize_def l)
      (simp add: length_vector_def)
qed

text \<open>
  C8, as the code has it. A list whose length is neither 12 nor 16 raises ValueError and
  is left as it was. A list of 16 values, and a list of 12 values after it has been
  extended in place by 0, 0, 0, 1, is handed to \<open>from_matrix\<close> row by row. Then a
  frame is constructed whenever \<open>decompose_matrix\<close> returns and the basis vectors read
  from the rotation of its angles are a non-zero x-axis and a y-axis not parallel to it:
  the frame has the decomposed translation as origin, the unitized x-axis and satisfies
  the invariant. An error of \<open>decompose_matrix\<close> leaves the call, and no other error
  does except the one of the constructor on degenerate axes.
\<close>

theorem from_list_length_check:
  "(length vals \<noteq> 12 \<and> length vals \<noteq> 16 \<longrightarrow>
      from_list dm mfe bvm vals = (vals, Inl ValueError)) \<and>
   ((length vals = 12 \<or> length vals = 16) \<and>
    vals' = (if length vals = 12 then vals @ [0, 0, 0, 1] else vals) \<longrightarrow>
      length vals' = 16 \<and>
      from_list dm mfe bvm vals = (vals', from_matrix dm mfe bvm (matrix_of_values vals'))) \<and>
   ((length vals = 12 \<or> length vals = 16) \<and>
    vals' = (if length vals = 12 then vals @ [0, 0, 0, 1] else vals) \<and>
    dm (matrix_of_values vals') = Inr (sc, sh, a, pt, p) \<and>
    bvm (mfe a True ''xyz'') = (x, y) \<and>
    x \<noteq> (0, 0, 0) \<and> cross_vectors x y \<noteq> (0, 0, 0) \<longrightarrow>
      (\<exists>F. from_list dm mfe bvm vals = (vals', Inr F) \<and> point F = pt \<and>
           unitize x = Inr (xaxis F) \<and> frame_invariant F)) \<and>
   ((length vals = 12 \<or> length vals = 16) \<and>
    vals' = (if length vals = 12 then vals @ [0, 0, 0, 1] else vals) \<and>
    dm (matrix_of_values vals') = Inl e \<longrightarrow>
      from_list dm mfe bvm vals = (vals', Inl e)) \<and>
   ((length vals = 12 \<or> length vals = 16) \<and>
    vals' = (if length vals = 12 then vals @ [0, 0, 0, 1] else vals) \<and>
    from_list dm mfe bvm vals = (vals', Inl e) \<longrightarrow>
      dm (matrix_of_values vals') = Inl e \<or> e = DegenerateInputError)"
proof (intro conjI impI)
  assume "length vals \<noteq> 12 \<and> length vals \<noteq> 16"
  then show "from_list dm mfe bvm vals = (vals, Inl ValueError)"
    by (simp add: from_list_def)
next
  assume a: "(length vals = 12 \<or> length vals = 16) \<and>
    vals' = (if length vals = 12 then vals @ [0, 0, 0, 1] else vals)"
  then show "length vals' = 16" by auto
  from a show "from_list dm mfe bvm vals =
      (vals', from_matrix dm mfe bvm (matrix_of_values vals'))"
    by (intro from_list_checked) simp_all
next
  assume a: "(length vals = 12 \<or> length vals = 16) \<and>
    vals' = (if length vals = 12 then vals @ [0, 0, 0, 1] else vals) \<and>
    dm (matrix_of_values vals') = Inr (sc, sh, a, pt, p) \<and>
    bvm (mfe a True ''xyz'') = (x, y) \<and>
    x \<noteq> (0, 0, 0) \<and> cross_vectors x y \<noteq> (0, 0, 0)"
  then have fl: "from_list dm mfe bvm vals =
      (vals', from_matrix dm mfe bvm (matrix_of_values vals'))"
    by (intro from_list_checked) simp_all
  from a have h: "dm (matrix_of_values vals') = Inr (sc, sh, a, pt, p)"
    "bvm (mfe a True ''xyz'') = (x, y)" "x \<noteq> (0, 0, 0)" "cross_vectors x y \<noteq> (0, 0, 0)"
    by blast+
  have "\<exists>F. from_matrix dm mfe bvm (matrix_of_values vals') = Inr F \<and> point F = pt \<and>
             unitize x = Inr (xaxis F) \<and> frame_invariant F"
    using h by (rule from_matrix_constructs)
  then obtain F where "from_matrix dm mfe bvm (matrix_of_values vals') = Inr F"
    "point F = pt" "unitize x = Inr (xaxis F)" "frame_invariant F" by blast
  with fl show "\<exists>F. from_list dm mfe bvm vals = (vals', Inr F) \<and> point F = pt \<and>
           unitize x = Inr (xaxis F) \<and> frame_invariant F"
    by (intro exI [of _ F]) (simp only: simp_thms)
next
  assume a: "(length vals = 12 \<or> length vals = 16) \<and>
    vals' = (if length vals = 12 then vals @ [0, 0, 0, 1] else vals) \<and>
    dm (matrix_of_values vals') = Inl e"
  then have fl: "from_list dm mfe bvm vals =
      (vals', from_matrix dm mfe bvm (matrix_of_values vals'))"
    by (intro from_list_checked) simp_all
  from a have "dm (matrix_of_values vals') = Inl e" by blast
  then have "from_matrix dm mfe bvm (matrix_of_values vals') = Inl e"
    by (simp add: from_matrix_def)
  with fl show "from_list dm mfe bvm vals = (vals', Inl e)"
    by (simp only:)
next
  assume a: "(length vals = 12 \<or> length vals = 16) \<and>
    vals' = (if length vals = 12 then vals @ [0, 0, 0, 1] else vals) \<and>
    from_list dm mfe bvm vals = (vals', Inl e)"
  then have "from_list dm mfe bvm vals =
      (vals', from_matrix dm mfe bvm (matrix_of_values vals'))"
    by (intro from_list_checked) simp_all
  moreover from a have "from_list dm mfe bvm vals = (vals', Inl e)" by blast
  ultimately have "from_matrix dm mfe bvm (matrix_of_values vals') = Inl e"
    by (simp only: prod.inject)
  then show "dm (matrix_of_values vals') = Inl e \<or> e = DegenerateInputError"
    by (rule from_matrix_raises)
qed

text \<open>
  Instances, with a decomposition that refuses a matrix whose last element is zero and
  otherwise reads the translation column and reports no rotation: a list of 11 values,
  a list of 12 values, and a list of 16 values that the decomposition refuses.
\<close>

theorem from_list_length_check_witness:
  "from_list
     (\<lambda>M. if M ! 3 ! 3 = 0 then Inl ValueError
          else Inr ((1, 1, 1), (0, 0, 0), (0, 0, 0), (M ! 0 ! 3, M ! 1 ! 3, M ! 2 ! 3), [0, 0, 0, 1]))
     (\<lambda>a s ax. identity_matrix4)
     (\<lambda>R. ((R ! 0 ! 0, R ! 1 ! 0, R ! 2 ! 0), (R ! 0 ! 1, R ! 1 ! 1, R ! 2 ! 1)))
     [1, 0, 0, 5, 0, 1, 0, 6, 0, 0, 1] =
     ([1, 0, 0, 5, 0, 1, 0, 6, 0, 0, 1], Inl ValueError) \<and>
   from_list
     (\<lambda>M. if M ! 3 ! 3 = 0 then Inl ValueError
          else Inr ((1, 1, 1), (0, 0, 0), (0, 0, 0), (M ! 0 ! 3, M ! 1 ! 3, M ! 2 ! 3), [0, 0, 0, 1]))
     (\<lambda>a s ax. identity_matrix4)
     (\<lambda>R. ((R ! 0 ! 0, R ! 1 ! 0, R ! 2 ! 0), (R ! 0 ! 1, R ! 1 ! 1, R ! 2 ! 1)))
     [1, 0, 0, 5, 0, 1, 0, 6, 0, 0, 1, 7] =
     ([1, 0, 0, 5, 0, 1, 0, 6, 0, 0, 1, 7, 0, 0, 0, 1],
      Inr \<lparr>point = (5, 6, 7), xaxis = (1, 0, 0), yaxis = (0, 1, 0)\<rparr>) \<and>
   frame_invariant \<lparr>point = (5, 6, 7), xaxis = (1, 0, 0), yaxis = (0, 1, 0)\<rparr> \<and>
   from_list
     (\<lambda>M. if M ! 3 ! 3 = 0 then Inl ValueError
          else Inr ((1, 1, 1), (0, 0, 0), (0, 0, 0), (M ! 0 ! 3, M ! 1 ! 3, M ! 2 ! 3), [0, 0, 0, 1]))
     (\<lambda>a s ax. identity_matrix4)
     (\<lambda>R. ((R ! 0 ! 0, R ! 1 ! 0, R ! 2 ! 0), (R ! 0 ! 1, R ! 1 ! 1, R ! 2 ! 1)))
     [1, 0, 0, 5, 0, 1, 0, 6, 0, 0, 1, 7, 0, 0, 0, 0] =
     ([1, 0, 0, 5, 0, 1, 0, 6, 0, 0, 1, 7, 0, 0, 0, 0], Inl ValueError)"
proof -
  let ?dm = "\<lambda>M :: matrix. (if M ! 3 ! 3 = 0 then Inl ValueError
      else Inr ((1, 1, 1), (0, 0, 0), (0, 0, 0), (M ! 0 ! 3, M ! 1 ! 3, M ! 2 ! 3), [0, 0, 0, 1]))
    :: error + (vec3 \<times> vec3 \<times> vec3 \<times> vec3 \<times> real list)"
  let ?mfe = "\<lambda>(a :: vec3) (s :: bool) (ax :: string). identity_matrix4"
  let ?bvm = "\<lambda>R :: matrix. ((R ! 0 ! 0, R ! 1 ! 0, R ! 2 ! 0), (R ! 0 ! 1, R ! 1 ! 1, R ! 2 ! 1))"
  let ?v11 = "[1, 0, 0, 5, 0, 1, 0, 6, 0, 0, 1 :: real]"
  let ?v12 = "[1, 0, 0, 5, 0, 1, 0, 6, 0, 0, 1, 7 :: real]"
  let ?v16 = "[1, 0, 0, 5, 0, 1, 0, 6, 0, 0, 1, 7, 0, 0, 0, 1 :: real]"
  let ?z16 = "[1, 0, 0, 5, 0, 1, 0, 6, 0, 0, 1, 7, 0, 0, 0, 0 :: real]"
  let ?G = "\<lparr>point = (5, 6, 7), xaxis = (1, 0, 0), yaxis = (0, 1, 0)\<rparr>"
  have l1: "length_vector (1, 0, 0) = 1" by (simp add: length_vector_axis1)
  have m: "matrix_of_values ?v16 = [[1, 0, 0, 5], [0, 1, 0, 6], [0, 0, 1, 7], [0, 0, 0, 1]]"
    by (simp add: matrix_of_values_def upt4)
  have mz: "matrix_of_values ?z16 = [[1, 0, 0, 5], [0, 1, 0, 6], [0, 0, 1, 7], [0, 0, 0, 0]]"
    by (simp add: matrix_of_values_def upt4)
  note t11 = from_list_length_check [where vals = ?v11 and dm = ?dm and mfe = ?mfe
      and bvm = ?bvm, THEN conjunct1]
  note t12 = from_list_length_check [where vals = ?v12 and vals' = ?v16 and dm = ?dm
      and mfe = ?mfe and bvm = ?bvm and sc = "(1, 1, 1)" and sh = "(0, 0, 0)" and a = "(0, 0, 0)"
      and pt = "(5, 6, 7)" and p = "[0, 0, 0, 1]" and x = "(1, 0, 0)" and y = "(0, 1, 0)",
      THEN conjunct2, THEN conjunct2, THEN conjunct1]
  note tz = from_list_length_check [where vals = ?z16 and vals' = ?z16 and dm = ?dm
      and mfe = ?mfe and bvm = ?bvm and e = ValueError,
      THEN conjunct2, THEN conjunct2, THEN conjunct2, THEN conjunct1]
  have 1: "from_list ?dm ?mfe ?bvm ?v11 = (?v11, Inl ValueError)"
    using t11 by simp
  have h12: "(length ?v12 = 12 \<or> length ?v12 = 16) \<and>
    ?v16 = (if length ?v12 = 12 then ?v12 @ [0, 0, 0, 1] else ?v12) \<and>
    ?dm (matrix_of_values ?v16) = Inr ((1, 1, 1), (0, 0, 0), (0, 0, 0), (5, 6, 7), [0, 0, 0, 1]) \<and>
    ?bvm (?mfe (0, 0, 0) True ''xyz'') = ((1, 0, 0), (0, 1, 0)) \<and>
    ((1, 0, 0) :: vec3) \<noteq> (0, 0, 0) \<and> cross_vectors (1, 0, 0) (0, 1, 0) \<noteq> (0, 0, 0)"
    by (simp add: m identity_matrix4_def)
  from mp [OF t12 h12] obtain F where
    F: "from_list ?dm ?mfe ?bvm ?v12 = (?v16, Inr F)" and pF: "point F = (5, 6, 7)"
    and xF: "unitize (1, 0, 0) = Inr (xaxis F)" and iF: "frame_invariant F" by blast
  have e12: "from_list ?dm ?mfe ?bvm ?v12 = (?v16, Inr ?G)"
    by (simp add: from_list_def from_matrix_def m identity_matrix4_def Frame_def point_setter_def
        xaxis_setter_def yaxis_setter_def blank_frame_def unitize_def l1 length_vector_axis2
        length_vector_axis3)
  with F have "F = ?G" by simp
  with iF have 3: "frame_invariant ?G" by simp
  have hz: "(length ?z16 = 12 \<or> length ?z16 = 16) \<and>
    ?z16 = (if length ?z16 = 12 then ?z16 @ [0, 0, 0, 1] else ?z16) \<and>
    ?dm (matrix_of_values ?z16) = Inl ValueError"
    by (simp add: mz)
  have 4: "from_list ?dm ?mfe ?bvm ?z16 = (?z16, Inl ValueError)"
    by (rule mp [OF tz hz])
  from 1 e12 3 4 show ?thesis by (intro conjI)
qed

text \<open>
  C8 as stated fails twice. A list of three values raises ValueError, not
  InvalidRepresentationError. And a list of 16 values need not give a frame: with the
  same decomposition, sixteen zeros pass the length check and the error of the
  decomposition leaves \<open>from_list\<close>.
\<close>

theorem from_list_raises_ValueError:
  "from_list
     (\<lambda>M. if M ! 3 ! 3 = 0 then Inl ValueError
          else Inr ((1, 1, 1), (0, 0, 0), (0, 0, 0), (M ! 0 ! 3, M ! 1 ! 3, M ! 2 ! 3), [0, 0, 0, 1]))
     (\<lambda>a s ax. identity_matrix4)
     (\<lambda>R. ((R ! 0 ! 0, R ! 1 ! 0, R ! 2 ! 0), (R ! 0 ! 1, R ! 1 ! 1, R ! 2 ! 1)))
     [1, 2, 3] = ([1, 2, 3], Inl ValueError) \<and>
   ValueError \<noteq> InvalidRepresentationError \<and>
   length [0, 0, 0, 0, 0, 0, 0, 0, 0, 0, 0, 0, 0, 0, 0, 0 :: real] = 16 \<and>
   from_list
     (\<lambda>M. if M ! 3 ! 3 = 0 then Inl ValueError
          else Inr ((1, 1, 1), (0, 0, 0), (0, 0, 0), (M ! 0 ! 3, M ! 1 ! 3, M ! 2 ! 3), [0, 0, 0, 1]))
     (\<lambda>a s ax. identity_matrix4)
     (\<lambda>R. ((R ! 0 ! 0, R ! 1 ! 0, R ! 2 ! 0), (R ! 0 ! 1, R ! 1 ! 1, R ! 2 ! 1)))
     [0, 0, 0, 0, 0, 0, 0, 0, 0, 0, 0, 0, 0, 0, 0, 0] =
     ([0, 0, 0, 0, 0, 0, 0, 0, 0, 0, 0, 0, 0, 0, 0, 0], Inl ValueError)"
  by (simp add: from_list_def from_matrix_def matrix_of_values_def upt4)

section \<open>Claims about the best-fit estimators\<close>

text \<open>
  C3. For at least three points that lie on a plane with unit normal \<open>nrm\<close> and are
  not all collinear, the plane fit returns the centroid of the points and the third row
  of \<open>vT\<close>, the direction of the smallest singular value of the covariance matrix,
  and that row is \<open>nrm\<close> or its negative. The decomposition is any function that
  returns a singular value decomposition of the covariance matrix.
\<close>

theorem bestfit_plane_exact:
  assumes n3: "3 \<le> length points"
    and ncol: "\<not> collinear points"
    and plane: "on_plane nrm k points"
    and unit: "length_vector nrm = 1"
    and call: "svd (covariance points) = Inr (u, s, vT)"
    and spec: "is_svd (covariance points) u s vT"
  shows "\<exists>c v0 v1 w.
           bestfit_plane_numpy svd points = Inr (Some c, w) \<and>
           c = scale_vector (sum_axis0 points) (1 / real (length points)) \<and>
           vT = (v0, v1, w) \<and> (w = nrm \<or> w = scale_vector nrm (- 1))"
proof -
  obtain v0 v1 w where vT: "vT = (v0, v1, w)" by (cases vT)
  obtain s1 s2 s3 where s: "s = (s1, s2, s3)" by (cases s)
  from n3 have ne: "points \<noteq> []" by auto
  from plane have pl: "\<forall>p \<in> set points. dot_vectors nrm p = k"
    by (simp add: on_plane_def list_all_iff)
  from centroid_on_plane [OF pl ne] obtain c where
    c: "centroid points = Some c" and ck: "dot_vectors nrm c = k" by blast
  have cv: "c = scale_vector (sum_axis0 points) (1 / real (length points))"
    using c ne by (simp add: centroid_def)
  have cen: "centered points = map (\<lambda>p. subtract_vectors p c) points"
    by (simp add: centered_def c)
  define m where "m = 1 / (real (length points) - 1)"
  have mpos: "m \<noteq> 0" using n3 by (simp add: m_def)
  have cov: "covariance points = scale_mat3 m (gram (centered points))"
    by (simp add: covariance_def m_def)
  have nrm_nz: "nrm \<noteq> (0, 0, 0)"
    using unit by (auto simp: length_vector_def)
  have perp_n: "\<forall>y \<in> set (centered points). dot_vectors y nrm = 0"
    using pl ck by (auto simp: cen dot_vectors_commute [of _ nrm] dot_subtract_right)
  have "mat3_vec (covariance points) nrm = (0, 0, 0)"
    by (simp add: cov mat3_vec_scale_mat3 mat3_vec_gram_perp [OF perp_n])
  with spec nrm_nz have "mat3_vec (covariance points) w = (0, 0, 0)"
    unfolding s vT by (rule svd_null_vector)
  then have "scale_vector (mat3_vec (gram (centered points)) w) m = (0, 0, 0)"
    by (simp add: cov mat3_vec_scale_mat3)
  with mpos have "mat3_vec (gram (centered points)) w = (0, 0, 0)"
    by (simp add: scale_vector_zero_iff)
  then have "dot_vectors w (mat3_vec (gram (centered points)) w) = 0"
    by (simp add: dot_zero_right del: dot_vectors.simps)
  then have "(\<Sum>y\<leftarrow>centered points. (dot_vectors y w)\<^sup>2) = 0"
    by (simp only: quadratic_form_gram)
  then have perp_w: "\<forall>y \<in> set (centered points). dot_vectors y w = 0"
    by (rule sum_list_squares_zero)
  have wc: "dot_vectors w p = dot_vectors w c" if "p \<in> set points" for p
  proof -
    from that have "subtract_vectors p c \<in> set (centered points)" by (simp add: cen)
    with perp_w have "dot_vectors (subtract_vectors p c) w = 0" by blast
    then show ?thesis
      by (simp add: dot_vectors_commute [of _ w] dot_subtract_right)
  qed
  from ncol obtain p q r where pqr: "p \<in> set points" "q \<in> set points" "r \<in> set points"
    and cr: "cross_vectors (subtract_vectors q p) (subtract_vectors r p) \<noteq> (0, 0, 0)"
    by (rule not_collinear_triple)
  from spec have "orthogonal3 (v0, v1, w)"
    by (simp add: is_svd_def vT)
  then have w1: "dot_vectors w w = 1"
    by (rule orthogonal3_third_row_unit)
  have n1: "dot_vectors nrm nrm = 1"
    using unit by (simp add: length_vector_one_iff)
  have "w = nrm \<or> w = scale_vector nrm (- 1)"
  proof (rule unit_normals_agree [OF cr _ _ _ _ w1 n1])
    show "dot_vectors w (subtract_vectors q p) = 0"
      by (simp add: dot_subtract_right wc pqr)
    show "dot_vectors w (subtract_vectors r p) = 0"
      by (simp add: dot_subtract_right wc pqr)
    show "dot_vectors nrm (subtract_vectors q p) = 0"
      using pl pqr by (simp add: dot_subtract_right)
    show "dot_vectors nrm (subtract_vectors r p) = 0"
      using pl pqr by (simp add: dot_subtract_right)
  qed
  moreover from n3 have "real (length points) - 1 \<noteq> 0" by simp
  then have "bestfit_plane_numpy svd points = Inr (Some c, w)"
    by (simp add: bestfit_plane_numpy_def Let_def call vT c)
  ultimately show ?thesis using cv vT by blast
qed

text \<open>
  An instance: the corners of the unit square in the plane z = 5, with the normal
  (0, 0, -1); the fit returns the opposite normal.
\<close>

theorem bestfit_plane_exact_witness:
  "3 \<le> length [(0, 0, 5), (1, 0, 5), (0, 1, 5), (1, 1, 5 :: real)] \<and>
   \<not> collinear [(0, 0, 5), (1, 0, 5), (0, 1, 5), (1, 1, 5)] \<and>
   on_plane (0, 0, - 1) (- 5) [(0, 0, 5), (1, 0, 5), (0, 1, 5), (1, 1, 5)] \<and>
   length_vector (0, 0, - 1) = 1 \<and>
   is_svd (covariance [(0, 0, 5), (1, 0, 5), (0, 1, 5), (1, 1, 5)])
     identity3 (1 / 3, 1 / 3, 0) identity3 \<and>
   bestfit_plane_numpy (\<lambda>C. Inr (identity3, (1 / 3, 1 / 3, 0), identity3))
     [(0, 0, 5), (1, 0, 5), (0, 1, 5), (1, 1, 5)] = Inr (Some (1 / 2, 1 / 2, 5), (0, 0, 1)) \<and>
   (0, 0, 1) = scale_vector (0, 0, - 1) (- 1)"
proof -
  let ?ps = "[(0, 0, 5), (1, 0, 5), (0, 1, 5), (1, 1, 5 :: real)]"
  let ?svd = "\<lambda>C :: mat3. Inr (identity3, (1 / 3, 1 / 3, 0), identity3) :: error + (mat3 \<times> vec3 \<times> mat3)"
  have n: "3 \<le> length ?ps" by simp
  have nc: "\<not> collinear ?ps" by (simp add: collinear_def)
  have pl: "on_plane (0, 0, - 1) (- 5) ?ps" by (simp add: on_plane_def)
  have un: "length_vector (0, 0, - 1) = 1" by (simp add: length_vector_def)
  have call: "(Inr (identity3, (1 / 3, 1 / 3, 0), identity3) :: error + (mat3 \<times> vec3 \<times> mat3)) =
      Inr (identity3, (1 / 3, 1 / 3, 0), identity3)" by simp
  have sv: "is_svd (covariance ?ps) identity3 (1 / 3, 1 / 3, 0) identity3"
    by (simp only: lifted_square_covariance) (rule identity_is_svd_of_diagonal, simp_all)
  note t = bestfit_plane_exact [where svd = ?svd and points = ?ps and u = identity3
      and s = "(1 / 3, 1 / 3, 0)" and vT = identity3 and nrm = "(0, 0, - 1)" and k = "- 5"]
  from t [OF n nc pl un call sv] obtain c v0 v1 w where
    r: "bestfit_plane_numpy ?svd ?ps = Inr (Some c, w)"
    and vt: "identity3 = (v0, v1, w)"
    and w: "w = (0, 0, - 1) \<or> w = scale_vector (0, 0, - 1) (- 1)" by blast
  have e: "bestfit_plane_numpy ?svd ?ps = Inr (Some (1 / 2, 1 / 2, 5), (0, 0, 1))"
    by (simp add: bestfit_plane_numpy_def Let_def identity3_def centroid_def sum_axis0_def)
  with r w have z: "(0, 0, 1) = scale_vector (0, 0, - 1) (- 1 :: real)" by auto
  from n nc pl un sv e z show ?thesis by (intro conjI)
qed

text \<open>
  C4. For at least four points that are not coplanar, and a solver that returns a
  least-squares solution of the linearized sphere equation, the sphere fit returns the
  first three coefficients as centre and the square root of the fourth coefficient plus
  their squares as radius (the radicand is never negative); for points on a sphere it
  returns the centre and radius of that sphere.
\<close>

theorem bestfit_sphere_least_squares:
  assumes n4: "4 \<le> length points"
    and ncop: "\<not> coplanar points"
    and call: "lstsq (sphere_A points) (sphere_f points) = Inr (C0, C1, C2, C3)"
    and spec: "is_lstsq (sphere_A points) (sphere_f points) (C0, C1, C2, C3)"
  shows "bestfit_sphere_numpy lstsq points =
           Inr ((C0, C1, C2), Some (sqrt (C3 + C0\<^sup>2 + C1\<^sup>2 + C2\<^sup>2))) \<and>
         (on_sphere ctr r points \<longrightarrow> bestfit_sphere_numpy lstsq points = Inr (ctr, Some r))"
proof (intro conjI impI)
  from n4 have ne: "points \<noteq> []" by auto
  have t: "0 \<le> C0 * C0 + C1 * C1 + C2 * C2 + C3"
    using ne spec by (rule lstsq_radicand_nonneg)
  have eq: "C0 * C0 + C1 * C1 + C2 * C2 + C3 = C3 + C0\<^sup>2 + C1\<^sup>2 + C2\<^sup>2"
    by (simp add: power2_eq_square)
  show r1: "bestfit_sphere_numpy lstsq points =
           Inr ((C0, C1, C2), Some (sqrt (C3 + C0\<^sup>2 + C1\<^sup>2 + C2\<^sup>2)))"
    using t by (simp add: bestfit_sphere_numpy_def call Let_def np_sqrt_def eq)
  assume sph: "on_sphere ctr r points"
  obtain c1 c2 c3 where ctr: "ctr = (c1, c2, c3)" by (cases ctr)
  from exact_sphere_solution_unique [OF ncop spec sph [unfolded ctr]]
  have C: "C0 = c1" "C1 = c2" "C2 = c3" "C3 = r * r - (c1 * c1 + c2 * c2 + c3 * c3)"
    by simp_all
  from ne obtain p where "p \<in> set points" by (cases points) auto
  with sph have "length_vector (subtract_vectors p ctr) = r"
    by (simp add: on_sphere_def list_all_iff)
  then have "0 \<le> r" by (auto simp: length_vector_def dot_self_nonneg)
  then have "sqrt (C3 + C0\<^sup>2 + C1\<^sup>2 + C2\<^sup>2) = r"
    by (simp add: C power2_eq_square)
  with r1 show "bestfit_sphere_numpy lstsq points = Inr (ctr, Some r)"
    by (simp add: C ctr)
qed

text \<open>An instance: four points on the sphere of radius 2 around (1, 2, 3).\<close>

theorem bestfit_sphere_least_squares_witness:
  "4 \<le> length [(3, 2, 3), (- 1, 2, 3), (1, 4, 3), (1, 2, 5 :: real)] \<and>
   \<not> coplanar [(3, 2, 3), (- 1, 2, 3), (1, 4, 3), (1, 2, 5)] \<and>
   is_lstsq (sphere_A [(3, 2, 3), (- 1, 2, 3), (1, 4, 3), (1, 2, 5)])
     (sphere_f [(3, 2, 3), (- 1, 2, 3), (1, 4, 3), (1, 2, 5)]) (1, 2, 3, - 10) \<and>
   on_sphere (1, 2, 3) 2 [(3, 2, 3), (- 1, 2, 3), (1, 4, 3), (1, 2, 5)] \<and>
   bestfit_sphere_numpy (\<lambda>A f. Inr (1, 2, 3, - 10))
     [(3, 2, 3), (- 1, 2, 3), (1, 4, 3), (1, 2, 5)] = Inr ((1, 2, 3), Some 2)"
proof -
  let ?ps = "[(3, 2, 3), (- 1, 2, 3), (1, 4, 3), (1, 2, 5 :: real)]"
  let ?ls = "\<lambda>(A :: vec4 list) (f :: real list). Inr (1, 2, 3, - 10) :: error + vec4"
  have n: "4 \<le> length ?ps" by simp
  have nc: "\<not> coplanar ?ps" by (simp add: coplanar_def)
  have call: "(Inr (1, 2, 3, - 10) :: error + vec4) = Inr (1, 2, 3, - 10)" by simp
  have "residual (sphere_A ?ps) (sphere_f ?ps) (1, 2, 3, - 10) = 0"
    by (simp add: residual_sphere)
  then have ls: "is_lstsq (sphere_A ?ps) (sphere_f ?ps) (1, 2, 3, - 10)"
    by (simp add: is_lstsq_def residual_sphere_nonneg)
  have sp: "on_sphere (1, 2, 3) 2 ?ps"
    by (simp add: on_sphere_def length_vector_def)
  note t = bestfit_sphere_least_squares [where lstsq = ?ls and points = ?ps and ?C0.0 = 1
      and ?C1.0 = 2 and ?C2.0 = 3 and ?C3.0 = "- 10" and ctr = "(1, 2, 3)" and r = 2]
  from t [OF n nc call ls] sp
  have "bestfit_sphere_numpy ?ls ?ps = Inr ((1, 2, 3), Some 2)" by blast
  with n nc ls sp show ?thesis by (intro conjI)
qed

text \<open>
  C10. For at least two points the plane fit, when the decomposition returns, returns
  the centroid and, as normal, the third row of the orthogonal factor \<open>vT\<close> of the
  decomposition of the covariance matrix; that row has unit length.
\<close>

theorem bestfit_plane_normal_unit:
  assumes "2 \<le> length points"
    and "svd (covariance points) = Inr (u, s, vT)"
    and "is_svd (covariance points) u s vT"
  shows "\<exists>v0 v1 w. bestfit_plane_numpy svd points = Inr (centroid points, w) \<and>
           vT = (v0, v1, w) \<and> length_vector w = 1"
proof -
  obtain v0 v1 v2 where vT: "vT = (v0, v1, v2)" by (cases vT)
  from assms(3) have "orthogonal3 (v0, v1, v2)"
    by (simp add: is_svd_def vT)
  then have "length_vector v2 = 1"
    by (simp add: length_vector_one_iff orthogonal3_third_row_unit)
  moreover from assms(1) have "real (length points) - 1 \<noteq> 0" by simp
  then have "bestfit_plane_numpy svd points = Inr (centroid points, v2)"
    by (simp add: bestfit_plane_numpy_def Let_def assms(2) vT)
  ultimately show ?thesis using vT by blast
qed

text \<open>
  An instance: the corners of a unit square in the plane x = 2, where the third row of
  \<open>vT\<close> is (1, 0, 0).
\<close>

theorem bestfit_plane_normal_unit_witness:
  "2 \<le> length [(2, 0, 0), (2, 1, 0), (2, 0, 1), (2, 1, 1 :: real)] \<and>
   is_svd (covariance [(2, 0, 0), (2, 1, 0), (2, 0, 1), (2, 1, 1)])
     ((0, 0, 1), (1, 0, 0), (0, 1, 0)) (1 / 3, 1 / 3, 0) ((0, 1, 0), (0, 0, 1), (1, 0, 0)) \<and>
   bestfit_plane_numpy
     (\<lambda>C. Inr (((0, 0, 1), (1, 0, 0), (0, 1, 0)), (1 / 3, 1 / 3, 0),
                ((0, 1, 0), (0, 0, 1), (1, 0, 0))))
     [(2, 0, 0), (2, 1, 0), (2, 0, 1), (2, 1, 1)] = Inr (Some (2, 1 / 2, 1 / 2), (1, 0, 0)) \<and>
   length_vector (1, 0, 0) = 1"
proof -
  let ?ps = "[(2, 0, 0), (2, 1, 0), (2, 0, 1), (2, 1, 1 :: real)]"
  let ?u = "((0, 0, 1), (1, 0, 0), (0, 1, 0)) :: mat3"
  let ?vT = "((0, 1, 0), (0, 0, 1), (1, 0, 0)) :: mat3"
  let ?svd = "\<lambda>C :: mat3. Inr (?u, (1 / 3, 1 / 3, 0), ?vT) :: error + (mat3 \<times> vec3 \<times> mat3)"
  have n: "2 \<le> length ?ps" by simp
  have call: "(Inr (?u, (1 / 3, 1 / 3, 0), ?vT) :: error + (mat3 \<times> vec3 \<times> mat3)) =
      Inr (?u, (1 / 3, 1 / 3, 0), ?vT)" by simp
  have sv: "is_svd (covariance ?ps) ?u (1 / 3, 1 / 3, 0) ?vT"
    by (simp add: upright_square_covariance is_svd_def orthogonal3_def identity3_def)
  have cen: "centroid ?ps = Some (2, 1 / 2, 1 / 2)"
    by (simp add: centroid_def sum_axis0_def)
  note t = bestfit_plane_normal_unit [where svd = ?svd and points = ?ps and u = ?u
      and s = "(1 / 3, 1 / 3, 0)" and vT = ?vT]
  from t [OF n call sv] obtain v0 v1 w where
    r: "bestfit_plane_numpy ?svd ?ps = Inr (centroid ?ps, w)"
    and vt: "?vT = (v0, v1, w)" and w: "length_vector w = 1" by blast
  from vt have w3: "w = (1, 0, 0)" by simp
  from r have e: "bestfit_plane_numpy ?svd ?ps = Inr (Some (2, 1 / 2, 1 / 2), (1, 0, 0))"
    by (simp only: cen w3)
  from w have l: "length_vector (1, 0, 0) = 1" by (simp only: w3)
  from n sv e l show ?thesis by (intro conjI)
qed

text \<open>
  C5, as the code has it. Neither estimator looks at the number of points. The plane
  fit of exactly one point raises ZeroDivisionError (from \<open>1.0 / (n - 1.0)\<close>); for any
  other number of points it returns the centroid and the third row of \<open>vT\<close> whenever
  the decomposition returns, and raises only what the decomposition raises. The sphere
  fit returns a centre and radius whenever the solver returns, and raises only what the
  solver raises.
\<close>

theorem bestfit_no_point_count_check:
  "(length points = 1 \<longrightarrow> bestfit_plane_numpy svd points = Inl ZeroDivisionError) \<and>
   (length points \<noteq> 1 \<and> svd (covariance points) = Inr (u, s, (v0, v1, v2)) \<longrightarrow>
      bestfit_plane_numpy svd points = Inr (centroid points, v2)) \<and>
   (length points \<noteq> 1 \<and> bestfit_plane_numpy svd points = Inl e \<longrightarrow>
      svd (covariance points) = Inl e) \<and>
   (lstsq (sphere_A points) (sphere_f points) = Inr (C0, C1, C2, C3) \<longrightarrow>
      bestfit_sphere_numpy lstsq points =
        Inr ((C0, C1, C2), np_sqrt (C0 * C0 + C1 * C1 + C2 * C2 + C3))) \<and>
   (bestfit_sphere_numpy lstsq points = Inl e \<longrightarrow>
      lstsq (sphere_A points) (sphere_f points) = Inl e)"
proof (intro conjI impI)
  assume "length points = 1"
  then show "bestfit_plane_numpy svd points = Inl ZeroDivisionError"
    by (simp add: bestfit_plane_numpy_def)
next
  assume "length points \<noteq> 1 \<and> svd (covariance points) = Inr (u, s, (v0, v1, v2))"
  then show "bestfit_plane_numpy svd points = Inr (centroid points, v2)"
    by (simp add: bestfit_plane_numpy_def Let_def)
next
  assume "length points \<noteq> 1 \<and> bestfit_plane_numpy svd points = Inl e"
  then show "svd (covariance points) = Inl e"
    by (auto simp: bestfit_plane_numpy_def Let_def split: sum.splits prod.splits)
next
  assume "lstsq (sphere_A points) (sphere_f points) = Inr (C0, C1, C2, C3)"
  then show "bestfit_sphere_numpy lstsq points =
        Inr ((C0, C1, C2), np_sqrt (C0 * C0 + C1 * C1 + C2 * C2 + C3))"
    by (simp add: bestfit_sphere_numpy_def Let_def)
next
  assume "bestfit_sphere_numpy lstsq points = Inl e"
  then show "lstsq (sphere_A points) (sphere_f points) = Inl e"
    by (auto simp: bestfit_sphere_numpy_def Let_def split: sum.splits prod.splits)
qed

text \<open>
  Instances: one point; no point (the centroid is NaN); two points with a decomposition
  that fails; two points with a solver that returns, and with one that fails.
\<close>

theorem bestfit_no_point_count_check_witness:
  "bestfit_plane_numpy (\<lambda>C. Inr (identity3, (0, 0, 0), identity3)) [(4, 5, 6)] =
     Inl ZeroDivisionError \<and>
   bestfit_plane_numpy (\<lambda>C. Inr (identity3, (0, 0, 0), identity3)) [] =
     Inr (None, (0, 0, 1)) \<and>
   bestfit_plane_numpy (\<lambda>C. Inl LinAlgError) [(0, 0, 0), (2, 0, 0)] = Inl LinAlgError \<and>
   bestfit_sphere_numpy (\<lambda>A f. Inr (0, 0, 0, 1)) [(1, 0, 0), (0, 1, 0)] =
     Inr ((0, 0, 0), Some 1) \<and>
   bestfit_sphere_numpy (\<lambda>A f. Inl LinAlgError) [(1, 0, 0), (0, 1, 0)] = Inl LinAlgError"
proof -
  let ?svd0 = "\<lambda>C :: mat3. Inr (identity3, (0, 0, 0), identity3) :: error + (mat3 \<times> vec3 \<times> mat3)"
  let ?svdE = "\<lambda>C :: mat3. Inl LinAlgError :: error + (mat3 \<times> vec3 \<times> mat3)"
  let ?ls = "\<lambda>(A :: vec4 list) (f :: real list). Inr (0, 0, 0, 1) :: error + vec4"
  let ?lsE = "\<lambda>(A :: vec4 list) (f :: real list). Inl LinAlgError :: error + vec4"
  note a = bestfit_no_point_count_check [where points = "[(4, 5, 6)]" and svd = ?svd0,
      THEN conjunct1]
  note b = bestfit_no_point_count_check [where points = "[]" and svd = ?svd0 and u = identity3
      and s = "(0, 0, 0)" and ?v0.0 = "(1, 0, 0)" and ?v1.0 = "(0, 1, 0)" and ?v2.0 = "(0, 0, 1)",
      THEN conjunct2, THEN conjunct1]
  note c = bestfit_no_point_count_check [where points = "[(0, 0, 0), (2, 0, 0)]" and svd = ?svdE
      and e = LinAlgError, THEN conjunct2, THEN conjunct2, THEN conjunct1]
  note d = bestfit_no_point_count_check [where points = "[(1, 0, 0), (0, 1, 0)]" and lstsq = ?ls
      and ?C0.0 = 0 and ?C1.0 = 0 and ?C2.0 = 0 and ?C3.0 = 1,
      THEN conjunct2, THEN conjunct2, THEN conjunct2, THEN conjunct1]
  note e = bestfit_no_point_count_check [where points = "[(1, 0, 0), (0, 1, 0)]" and lstsq = ?lsE
      and e = LinAlgError, THEN conjunct2, THEN conjunct2, THEN conjunct2, THEN conjunct2]
  have 1: "bestfit_plane_numpy ?svd0 [(4, 5, 6)] = Inl ZeroDivisionError"
    using a by simp
  have 2: "bestfit_plane_numpy ?svd0 [] = Inr (None, (0, 0, 1))"
    using b by (simp add: identity3_def centroid_def)
  have 3: "bestfit_plane_numpy ?svdE [(0, 0, 0), (2, 0, 0)] = Inl LinAlgError"
    by (simp add: bestfit_plane_numpy_def)
  have "?svdE (covariance [(0, 0, 0), (2, 0, 0)]) = Inl LinAlgError"
    using c 3 by simp
  have 4: "bestfit_sphere_numpy ?ls [(1, 0, 0), (0, 1, 0)] = Inr ((0, 0, 0), Some 1)"
    using d by (simp add: np_sqrt_def)
  have 5: "bestfit_sphere_numpy ?lsE [(1, 0, 0), (0, 1, 0)] = Inl LinAlgError"
    by (simp add: bestfit_sphere_numpy_def)
  have "?lsE (sphere_A [(1, 0, 0), (0, 1, 0)]) (sphere_f [(1, 0, 0), (0, 1, 0)]) = Inl LinAlgError"
    using e 5 by simp
  from 1 2 3 4 5 show ?thesis by (intro conjI)
qed

text \<open>
  C5 as stated fails: one point makes the plane fit raise ZeroDivisionError, two points
  make it return a plane (here with a decomposition of their covariance matrix), and
  three points make the sphere fit return (here with a least-squares solution, the one
  of least norm).
\<close>

theorem bestfit_below_minimum_count:
  "bestfit_plane_numpy (\<lambda>C. Inl LinAlgError) [(1, 2, 3)] = Inl ZeroDivisionError \<and>
   is_svd (covariance [(0, 0, 0), (2, 0, 0)]) identity3 (2, 0, 0) identity3 \<and>
   bestfit_plane_numpy (\<lambda>C. Inr (identity3, (2, 0, 0), identity3)) [(0, 0, 0), (2, 0, 0)] =
     Inr (Some (1, 0, 0), (0, 0, 1)) \<and>
   is_lstsq (sphere_A [(1, 0, 0), (0, 1, 0), (0, 0, 1)])
     (sphere_f [(1, 0, 0), (0, 1, 0), (0, 0, 1)]) (2 / 7, 2 / 7, 2 / 7, 3 / 7) \<and>
   bestfit_sphere_numpy (\<lambda>A f. Inr (2 / 7, 2 / 7, 2 / 7, 3 / 7))
     [(1, 0, 0), (0, 1, 0), (0, 0, 1)] = Inr ((2 / 7, 2 / 7, 2 / 7), Some (sqrt (33 / 49)))"
proof (intro conjI)
  have "residual (sphere_A [(1, 0, 0), (0, 1, 0), (0, 0, 1)])
     (sphere_f [(1, 0, 0), (0, 1, 0), (0, 0, 1)]) (2 / 7, 2 / 7, 2 / 7, 3 / 7) = 0"
    by (simp add: residual_sphere)
  then show "is_lstsq (sphere_A [(1, 0, 0), (0, 1, 0), (0, 0, 1)])
     (sphere_f [(1, 0, 0), (0, 1, 0), (0, 0, 1)]) (2 / 7, 2 / 7, 2 / 7, 3 / 7)"
    by (simp add: is_lstsq_def residual_sphere_nonneg)
  show "bestfit_plane_numpy (\<lambda>C. Inl LinAlgError) [(1, 2, 3)] = Inl ZeroDivisionError"
    by (simp add: bestfit_plane_numpy_def)
  show "is_svd (covariance [(0, 0, 0), (2, 0, 0)]) identity3 (2, 0, 0) identity3"
    by (simp only: two_point_covariance) (rule identity_is_svd_of_diagonal, simp_all)
  show "bestfit_plane_numpy (\<lambda>C. Inr (identity3, (2, 0, 0), identity3)) [(0, 0, 0), (2, 0, 0)] =
     Inr (Some (1, 0, 0), (0, 0, 1))"
    by (simp add: bestfit_plane_numpy_def Let_def identity3_def centroid_def sum_axis0_def)
  show "bestfit_sphere_numpy (\<lambda>A f. Inr (2 / 7, 2 / 7, 2 / 7, 3 / 7))
     [(1, 0, 0), (0, 1, 0), (0, 0, 1)] = Inr ((2 / 7, 2 / 7, 2 / 7), Some (sqrt (33 / 49)))"
    by (simp add: bestfit_sphere_numpy_def Let_def np_sqrt_def)
qed

text \<open>
  C6, as the code has it. The circle fit never reads the flag \<open>ier\<close>: whatever flag
  the solver returns with its parameters, the result is computed from those parameters.
  It raises ConvergenceError only when \<open>pca_numpy\<close> or the solver itself raises it.
\<close>

theorem bestfit_circle_ignores_ier:
  "(pca_numpy points = Inr (org, (u, v, w)) \<and>
    x = map (\<lambda>(r, s, t). r) (local_coords_numpy org (u, v, w) points) \<and>
    y = map (\<lambda>(r, s, t). s) (local_coords_numpy org (u, v, w) points) \<and>
    leastsq (circle_f x y) (np_mean x, np_mean y) = Inr (c, ier) \<and>
    global_coords_numpy org (u, v, w) [(fst c, snd c, 0)] = xyz # rest \<longrightarrow>
      bestfit_circle_numpy pca_numpy local_coords_numpy global_coords_numpy leastsq points =
        Inr (xyz, w, np_mean (dist_xy x y c))) \<and>
   (bestfit_circle_numpy pca_numpy local_coords_numpy global_coords_numpy leastsq points =
      Inl ConvergenceError \<longrightarrow>
    pca_numpy points = Inl ConvergenceError \<or>
    (\<exists>org uvw. pca_numpy points = Inr (org, uvw) \<and>
       leastsq
         (circle_f (map (\<lambda>(r, s, t). r) (local_coords_numpy org uvw points))
                   (map (\<lambda>(r, s, t). s) (local_coords_numpy org uvw points)))
         (np_mean (map (\<lambda>(r, s, t). r) (local_coords_numpy org uvw points)),
          np_mean (map (\<lambda>(r, s, t). s) (local_coords_numpy org uvw points))) =
       Inl ConvergenceError))"
proof (intro conjI impI)
  assume "pca_numpy points = Inr (org, (u, v, w)) \<and>
    x = map (\<lambda>(r, s, t). r) (local_coords_numpy org (u, v, w) points) \<and>
    y = map (\<lambda>(r, s, t). s) (local_coords_numpy org (u, v, w) points) \<and>
    leastsq (circle_f x y) (np_mean x, np_mean y) = Inr (c, ier) \<and>
    global_coords_numpy org (u, v, w) [(fst c, snd c, 0)] = xyz # rest"
  then show "bestfit_circle_numpy pca_numpy local_coords_numpy global_coords_numpy leastsq points =
        Inr (xyz, w, np_mean (dist_xy x y c))"
    by (auto simp: bestfit_circle_numpy_def Let_def)
next
  assume "bestfit_circle_numpy pca_numpy local_coords_numpy global_coords_numpy leastsq points =
      Inl ConvergenceError"
  then show "pca_numpy points = Inl ConvergenceError \<or>
    (\<exists>org uvw. pca_numpy points = Inr (org, uvw) \<and>
       leastsq
         (circle_f (map (\<lambda>(r, s, t). r) (local_coords_numpy org uvw points))
                   (map (\<lambda>(r, s, t). s) (local_coords_numpy org uvw points)))
         (np_mean (map (\<lambda>(r, s, t). r) (local_coords_numpy org uvw points)),
          np_mean (map (\<lambda>(r, s, t). s) (local_coords_numpy org uvw points))) =
       Inl ConvergenceError)"
    by (auto simp: bestfit_circle_numpy_def Let_def split: sum.splits prod.splits list.splits)
qed

text \<open>
  Instances, for points on the circle of radius 3 around the origin of the xy-plane: a
  solver that returns the centre with flag 1, and a solver that raises.
\<close>

theorem bestfit_circle_ignores_ier_witness:
  "bestfit_circle_numpy
     (\<lambda>ps. Inr ((0, 0, 0), identity3)) (\<lambda>org uvw ps. ps) (\<lambda>org uvw ps. ps)
     (\<lambda>f c0. Inr ((0, 0), 1))
     [(3, 0, 0), (- 3, 0, 0), (0, 3, 0), (0, - 3, 0)] =
     Inr ((0, 0, 0), (0, 0, 1), Some 3) \<and>
   bestfit_circle_numpy
     (\<lambda>ps. Inr ((0, 0, 0), identity3)) (\<lambda>org uvw ps. ps) (\<lambda>org uvw ps. ps)
     (\<lambda>f c0. Inl ConvergenceError)
     [(3, 0, 0), (- 3, 0, 0), (0, 3, 0), (0, - 3, 0)] = Inl ConvergenceError"
proof -
  let ?pca = "\<lambda>ps :: vec3 list. Inr ((0, 0, 0), identity3) :: error + (vec3 \<times> mat3)"
  let ?loc = "\<lambda>(org :: vec3) (uvw :: mat3) (ps :: vec3 list). ps"
  let ?ok = "\<lambda>(f :: real \<times> real \<Rightarrow> real list) (c0 :: real option \<times> real option).
      Inr ((0, 0), 1) :: error + ((real \<times> real) \<times> int)"
  let ?bad = "\<lambda>(f :: real \<times> real \<Rightarrow> real list) (c0 :: real option \<times> real option).
      Inl ConvergenceError :: error + ((real \<times> real) \<times> int)"
  let ?ps = "[(3, 0, 0), (- 3, 0, 0), (0, 3, 0), (0, - 3, 0 :: real)]"
  note a = bestfit_circle_ignores_ier [where pca_numpy = ?pca and local_coords_numpy = ?loc
      and global_coords_numpy = ?loc and leastsq = ?ok and points = ?ps
      and org = "(0, 0, 0)" and u = "(1, 0, 0)" and v = "(0, 1, 0)" and w = "(0, 0, 1)"
      and x = "[3, - 3, 0, 0]" and y = "[0, 0, 3, - 3]" and c = "(0, 0)" and ier = 1
      and xyz = "(0, 0, 0)" and rest = "[]", THEN conjunct1]
  note b = bestfit_circle_ignores_ier [where pca_numpy = ?pca and local_coords_numpy = ?loc
      and global_coords_numpy = ?loc and leastsq = ?bad and points = ?ps, THEN conjunct2]
  have d: "dist_xy [3, - 3, 0, 0] [0, 0, 3, - 3] (0, 0) = [3, 3, 3, 3]"
    by (simp add: dist_xy_def sqrt_9)
  have 1: "bestfit_circle_numpy ?pca ?loc ?loc ?ok ?ps = Inr ((0, 0, 0), (0, 0, 1), Some 3)"
    using a by (simp add: identity3_def d np_mean_def)
  have 2: "bestfit_circle_numpy ?pca ?loc ?loc ?bad ?ps = Inl ConvergenceError"
    by (simp add: bestfit_circle_numpy_def)
  have "?pca ?ps = Inl ConvergenceError \<or>
    (\<exists>org uvw. ?pca ?ps = Inr (org, uvw) \<and>
       ?bad
         (circle_f (map (\<lambda>(r, s, t). r) (?loc org uvw ?ps))
                   (map (\<lambda>(r, s, t). s) (?loc org uvw ?ps)))
         (np_mean (map (\<lambda>(r, s, t). r) (?loc org uvw ?ps)),
          np_mean (map (\<lambda>(r, s, t). s) (?loc org uvw ?ps))) =
       Inl ConvergenceError)"
    by (rule mp [OF b 2])
  from 1 2 show ?thesis by (intro conjI)
qed

text \<open>
  C6 as stated fails: for the same points, a solver that stops at (0, 4) and reports
  flag 5 (the iteration budget is spent) makes the circle fit return the centre
  (0, 4, 0) and the radius 9/2.
\<close>

theorem bestfit_circle_returns_unconverged:
  "bestfit_circle_numpy
     (\<lambda>ps. Inr ((0, 0, 0), identity3)) (\<lambda>org uvw ps. ps) (\<lambda>org uvw ps. ps)
     (\<lambda>f c0. Inr ((0, 4), 5))
     [(3, 0, 0), (- 3, 0, 0), (0, 3, 0), (0, - 3, 0)] =
     Inr ((0, 4, 0), (0, 0, 1), Some (9 / 2))"
  by (simp add: bestfit_circle_numpy_def Let_def identity3_def np_mean_def dist_xy_def
      sqrt_25 sqrt_49)

end
